theory Spec2Isabelle
  imports Main "HOL-Library.Word"
begin

section \<open>Values and tri-state booleans (SelectorValue.h, consumed interface)\<close>

text \<open>
  Modelled from the spec: the class \<open>Value\<close> of SelectorValue.h is not part of the
  source file. The spec gives it as a tagged value: boolean, string, exact 64-bit signed
  integer, approximate double, or unknown. The payload of the approximate case is kept
  abstract (type parameter \<open>'d\<close>).
\<close>

datatype 'd Value =
    V_UNKNOWN
  | V_BOOL bool
  | V_STRING string
  | V_EXACT "64 word"
  | V_INEXACT 'd

text \<open>
  Modelled from the spec: \<open>BoolOrNone\<close> is the tri-state \<open>{False, True, Unknown}\<close>,
  constructible from a native boolean.
\<close>

datatype BoolOrNone = BN_FALSE | BN_TRUE | BN_UNKNOWN

definition BoolOrNone_of :: "bool \<Rightarrow> BoolOrNone" where
  "BoolOrNone_of b = (if b then BN_TRUE else BN_FALSE)"

text \<open>
  Modelled from the spec: the conversion used by \<open>BoolExpression::eval\<close>, where a
  tri-state result is reinterpreted as a boolean \<open>Value\<close> and \<open>Unknown\<close> is the
  absent value.
\<close>

fun Value_of_bn :: "BoolOrNone \<Rightarrow> 'd Value" where
  "Value_of_bn BN_FALSE = V_BOOL False"
| "Value_of_bn BN_TRUE = V_BOOL True"
| "Value_of_bn BN_UNKNOWN = V_UNKNOWN"

text \<open>
  Modelled from the spec: the predicates \<open>unknown\<close>, \<open>numeric\<close> and \<open>sameType\<close> of
  SelectorValue.h test the type tag of their arguments.
\<close>

fun unknown :: "'d Value \<Rightarrow> bool" where
  "unknown V_UNKNOWN = True"
| "unknown _ = False"

fun numeric :: "'d Value \<Rightarrow> bool" where
  "numeric (V_EXACT _) = True"
| "numeric (V_INEXACT _) = True"
| "numeric _ = False"

fun sameType :: "'d Value \<Rightarrow> 'd Value \<Rightarrow> bool" where
  "sameType V_UNKNOWN V_UNKNOWN = True"
| "sameType (V_BOOL _) (V_BOOL _) = True"
| "sameType (V_STRING _) (V_STRING _) = True"
| "sameType (V_EXACT _) (V_EXACT _) = True"
| "sameType (V_INEXACT _) (V_INEXACT _) = True"
| "sameType _ _ = False"

text \<open>
  The relational and arithmetic operators of \<open>Value\<close> and \<open>std::regex_match\<close> are
  defined outside the source file; the evaluator takes them as parameters.
  \<open>regex_match ops s re\<close> stands for \<open>std::regex_match(s, std::regex(re))\<close>,
  \<open>regex_valid ops re\<close> says that the constructor \<open>std::regex(re)\<close> does not throw, and
  \<open>strtod ops s\<close> is the value of \<open>std::strtod(s, 0)\<close> together with whether it set
  \<open>errno\<close>.
\<close>

record 'd externals =
  op_eq :: "'d Value \<Rightarrow> 'd Value \<Rightarrow> bool"
  op_ne :: "'d Value \<Rightarrow> 'd Value \<Rightarrow> bool"
  op_lt :: "'d Value \<Rightarrow> 'd Value \<Rightarrow> bool"
  op_gt :: "'d Value \<Rightarrow> 'd Value \<Rightarrow> bool"
  op_le :: "'d Value \<Rightarrow> 'd Value \<Rightarrow> bool"
  op_ge :: "'d Value \<Rightarrow> 'd Value \<Rightarrow> bool"
  op_neg :: "'d Value \<Rightarrow> 'd Value"
  op_add :: "'d Value \<Rightarrow> 'd Value \<Rightarrow> 'd Value"
  op_sub :: "'d Value \<Rightarrow> 'd Value \<Rightarrow> 'd Value"
  op_mul :: "'d Value \<Rightarrow> 'd Value \<Rightarrow> 'd Value"
  op_div :: "'d Value \<Rightarrow> 'd Value \<Rightarrow> 'd Value"
  regex_match :: "string \<Rightarrow> string \<Rightarrow> bool"
  regex_valid :: "string \<Rightarrow> bool"
  strtod :: "string \<Rightarrow> 'd \<times> bool"

type_synonym 'd Env = "string \<Rightarrow> 'd Value"

section \<open>Operators and expression nodes\<close>

datatype ComparisonOperator = Eq | Neq | Ls | Gr | Lseq | Greq

datatype UnaryBooleanOperator = IsNull | IsNonNull | Not

datatype ArithmeticOperator = Add | Sub | Mult | Div

datatype UnaryArithmeticOperator = Negate

text \<open>
  One constructor per node class. A \<open>LikeExpression\<close> holds the regular expression
  string \<open>reString\<close> that its constructor computed from the pattern.
\<close>

datatype 'd ValueExpression =
    ComparisonExpression ComparisonOperator "'d ValueExpression" "'d ValueExpression"
  | OrExpression "'d ValueExpression" "'d ValueExpression"
  | AndExpression "'d ValueExpression" "'d ValueExpression"
  | UnaryBooleanExpression UnaryBooleanOperator "'d ValueExpression"
  | LikeExpression "'d ValueExpression" string
  | BetweenExpression "'d ValueExpression" "'d ValueExpression" "'d ValueExpression"
  | InExpression "'d ValueExpression" "'d ValueExpression list"
  | NotInExpression "'d ValueExpression" "'d ValueExpression list"
  | ArithmeticExpression ArithmeticOperator "'d ValueExpression" "'d ValueExpression"
  | UnaryArithExpression UnaryArithmeticOperator "'d ValueExpression"
  | Literal "'d Value"
  | StringLiteral string
  | Identifier string

text \<open>The classes derived from \<open>BoolExpression\<close>.\<close>

fun isBoolExpression :: "'d ValueExpression \<Rightarrow> bool" where
  "isBoolExpression (ComparisonExpression _ _ _) = True"
| "isBoolExpression (OrExpression _ _) = True"
| "isBoolExpression (AndExpression _ _) = True"
| "isBoolExpression (UnaryBooleanExpression _ _) = True"
| "isBoolExpression (LikeExpression _ _) = True"
| "isBoolExpression (BetweenExpression _ _ _) = True"
| "isBoolExpression (InExpression _ _) = True"
| "isBoolExpression (NotInExpression _ _) = True"
| "isBoolExpression _ = False"

section \<open>Evaluation\<close>

text \<open>\<open>ValueExpression::eval_bool\<close>: the default for nodes that produce a value.\<close>

fun bn_of_Value :: "'d Value \<Rightarrow> BoolOrNone" where
  "bn_of_Value (V_BOOL b) = BoolOrNone_of b"
| "bn_of_Value _ = BN_UNKNOWN"

text \<open>The function pointer that each comparison operator passes to \<open>booleval\<close>.\<close>

fun BoolOp :: "'d externals \<Rightarrow> ComparisonOperator \<Rightarrow> 'd Value \<Rightarrow> 'd Value \<Rightarrow> bool" where
  "BoolOp ops Eq = op_eq ops"
| "BoolOp ops Neq = op_ne ops"
| "BoolOp ops Ls = op_lt ops"
| "BoolOp ops Gr = op_gt ops"
| "BoolOp ops Lseq = op_le ops"
| "BoolOp ops Greq = op_ge ops"

text \<open>\<open>booleval\<close>, on the values of the two operands.\<close>

definition booleval :: "('d Value \<Rightarrow> 'd Value \<Rightarrow> bool) \<Rightarrow> 'd Value \<Rightarrow> 'd Value \<Rightarrow> BoolOrNone" where
  "booleval op v1 v2 =
     (if \<not> unknown v1 then
        (if \<not> unknown v2 then BoolOrNone_of (op v1 v2) else BN_UNKNOWN)
      else BN_UNKNOWN)"

fun ArithOp :: "'d externals \<Rightarrow> ArithmeticOperator \<Rightarrow> 'd Value \<Rightarrow> 'd Value \<Rightarrow> 'd Value" where
  "ArithOp ops Add = op_add ops"
| "ArithOp ops Sub = op_sub ops"
| "ArithOp ops Mult = op_mul ops"
| "ArithOp ops Div = op_div ops"

text \<open>The loop of \<open>InExpression::eval_bool\<close> over the values of the list.\<close>

fun in_loop :: "'d externals \<Rightarrow> 'd Value \<Rightarrow> BoolOrNone \<Rightarrow> 'd Value list \<Rightarrow> BoolOrNone" where
  "in_loop ops ve r [] = r"
| "in_loop ops ve r (li # lis) =
     (if unknown li then in_loop ops ve BN_UNKNOWN lis
      else if op_eq ops ve li then BN_TRUE
      else in_loop ops ve r lis)"

text \<open>The loop of \<open>NotInExpression::eval_bool\<close> over the values of the list.\<close>

fun not_in_loop :: "'d externals \<Rightarrow> 'd Value \<Rightarrow> BoolOrNone \<Rightarrow> 'd Value list \<Rightarrow> BoolOrNone" where
  "not_in_loop ops ve r [] = r"
| "not_in_loop ops ve r (li # lis) =
     (if unknown li then not_in_loop ops ve BN_UNKNOWN lis
      else if r \<noteq> BN_UNKNOWN \<and> \<not> sameType ve li \<and> \<not> (numeric ve \<and> numeric li)
        then not_in_loop ops ve BN_FALSE lis
      else if op_eq ops ve li then BN_FALSE
      else not_in_loop ops ve r lis)"

text \<open>
  \<open>eval\<close> and \<open>eval_bool\<close> of every node class. A boolean node defines \<open>eval_bool\<close>
  and inherits \<open>BoolExpression::eval\<close>; a value node defines \<open>eval\<close> and inherits
  \<open>ValueExpression::eval_bool\<close>. Evaluation has no side effect, so the list loops run
  over the evaluated list elements.
\<close>

function eval :: "'d externals \<Rightarrow> 'd ValueExpression \<Rightarrow> 'd Env \<Rightarrow> 'd Value"
  and eval_bool :: "'d externals \<Rightarrow> 'd ValueExpression \<Rightarrow> 'd Env \<Rightarrow> BoolOrNone" where
  "eval ops (ComparisonExpression op e1 e2) env =
     Value_of_bn (eval_bool ops (ComparisonExpression op e1 e2) env)"
| "eval ops (OrExpression e1 e2) env = Value_of_bn (eval_bool ops (OrExpression e1 e2) env)"
| "eval ops (AndExpression e1 e2) env = Value_of_bn (eval_bool ops (AndExpression e1 e2) env)"
| "eval ops (UnaryBooleanExpression op e1) env =
     Value_of_bn (eval_bool ops (UnaryBooleanExpression op e1) env)"
| "eval ops (LikeExpression e re) env = Value_of_bn (eval_bool ops (LikeExpression e re) env)"
| "eval ops (BetweenExpression e l u) env =
     Value_of_bn (eval_bool ops (BetweenExpression e l u) env)"
| "eval ops (InExpression e l) env = Value_of_bn (eval_bool ops (InExpression e l) env)"
| "eval ops (NotInExpression e l) env = Value_of_bn (eval_bool ops (NotInExpression e l) env)"
| "eval ops (ArithmeticExpression op e1 e2) env =
     ArithOp ops op (eval ops e1 env) (eval ops e2 env)"
| "eval ops (UnaryArithExpression Negate e1) env = op_neg ops (eval ops e1 env)"
| "eval ops (Literal v) env = v"
| "eval ops (StringLiteral s) env = V_STRING s"
| "eval ops (Identifier i) env = env i"
| "eval_bool ops (ComparisonExpression op e1 e2) env =
     booleval (BoolOp ops op) (eval ops e1 env) (eval ops e2 env)"
| "eval_bool ops (OrExpression e1 e2) env =
     (let bn1 = eval_bool ops e1 env in
      if bn1 = BN_TRUE then BN_TRUE
      else let bn2 = eval_bool ops e2 env in
        if bn2 = BN_TRUE then BN_TRUE
        else if bn1 = BN_FALSE \<and> bn2 = BN_FALSE then BN_FALSE
        else BN_UNKNOWN)"
| "eval_bool ops (AndExpression e1 e2) env =
     (let bn1 = eval_bool ops e1 env in
      if bn1 = BN_FALSE then BN_FALSE
      else let bn2 = eval_bool ops e2 env in
        if bn2 = BN_FALSE then BN_FALSE
        else if bn1 = BN_TRUE \<and> bn2 = BN_TRUE then BN_TRUE
        else BN_UNKNOWN)"
| "eval_bool ops (UnaryBooleanExpression IsNull e) env =
     BoolOrNone_of (unknown (eval ops e env))"
| "eval_bool ops (UnaryBooleanExpression IsNonNull e) env =
     BoolOrNone_of (\<not> unknown (eval ops e env))"
| "eval_bool ops (UnaryBooleanExpression Not e) env =
     (let bn = eval_bool ops e env in
      if bn = BN_UNKNOWN then bn else BoolOrNone_of (bn = BN_FALSE))"
| "eval_bool ops (LikeExpression e re) env =
     (case eval ops e env of
        V_STRING s \<Rightarrow> BoolOrNone_of (regex_match ops s re)
      | _ \<Rightarrow> BN_UNKNOWN)"
| "eval_bool ops (BetweenExpression e l u) env =
     (let ve = eval ops e env; vl = eval ops l env; vu = eval ops u env in
      if unknown ve \<or> unknown vl \<or> unknown vu then BN_UNKNOWN
      else BoolOrNone_of (op_ge ops ve vl \<and> op_le ops ve vu))"
| "eval_bool ops (InExpression e l) env =
     (let ve = eval ops e env in
      if unknown ve then BN_UNKNOWN
      else in_loop ops ve BN_FALSE (map (\<lambda>le. eval ops le env) l))"
| "eval_bool ops (NotInExpression e l) env =
     (let ve = eval ops e env in
      if unknown ve then BN_UNKNOWN
      else not_in_loop ops ve BN_TRUE (map (\<lambda>le. eval ops le env) l))"
| "eval_bool ops (ArithmeticExpression op e1 e2) env =
     bn_of_Value (eval ops (ArithmeticExpression op e1 e2) env)"
| "eval_bool ops (UnaryArithExpression op e1) env =
     bn_of_Value (eval ops (UnaryArithExpression op e1) env)"
| "eval_bool ops (Literal v) env = bn_of_Value (eval ops (Literal v) env)"
| "eval_bool ops (StringLiteral s) env = bn_of_Value (eval ops (StringLiteral s) env)"
| "eval_bool ops (Identifier i) env = bn_of_Value (eval ops (Identifier i) env)"
  by pat_completeness auto

termination
  by (relation "measure (\<lambda>x. case x of
        Inl (ops, e, env) \<Rightarrow> 2 * size e + (if isBoolExpression e then 1 else 0)
      | Inr (ops, e, env) \<Rightarrow> 2 * size e + (if isBoolExpression e then 0 else 1))")
     (auto dest: size_list_estimation' [where f = size, OF _ order_refl])

text \<open>\<open>ConcreteExpression::eval\<close>: only \<open>True\<close> reports \<open>true\<close>.\<close>

definition ConcreteExpression_eval :: "'d externals \<Rightarrow> 'd ValueExpression \<Rightarrow> 'd Env \<Rightarrow> bool" where
  "ConcreteExpression_eval ops expression env =
     (let bn = eval_bool ops expression env in if bn = BN_TRUE then True else False)"

section \<open>The LIKE pattern compiler\<close>

text \<open>
  The exceptions that leave the parser: \<open>std::range_error\<close> from \<open>throwParseError\<close>,
  \<open>std::logic_error\<close> from \<open>toRegex\<close>, and \<open>std::regex_error\<close> from the constructor
  of \<open>std::regex\<close>.
\<close>

datatype exn = range_error string | logic_error string | regex_error string

text \<open>
  The loop of \<open>LikeExpression::toRegex\<close> over the pattern: \<open>e\<close> is the escape
  character (\<open>0\<close> for none), \<open>doEscape\<close> the flag and \<open>regex\<close> the output so far.
\<close>

fun toRegex_loop :: "char \<Rightarrow> string \<Rightarrow> bool \<Rightarrow> string \<Rightarrow> string" where
  "toRegex_loop e [] doEscape regex = regex"
| "toRegex_loop e (i # s) doEscape regex =
     (if e \<noteq> CHR 0x00 \<and> i = e then toRegex_loop e s True regex
      else toRegex_loop e s False
        (if i = CHR ''%'' then (if doEscape then regex @ [i] else regex @ ''.*'')
         else if i = CHR ''_'' then (if doEscape then regex @ [i] else regex @ ''.'')
         else if i = CHR '']'' then regex @ ''[]]''
         else if i = CHR ''-'' then regex @ ''[-]''
         else if i = CHR 0x5C \<or> i = CHR ''^'' \<or> i = CHR ''$'' \<or> i = CHR ''.''
                 \<or> i = CHR ''*'' \<or> i = CHR ''[''
           then (regex @ [CHR 0x5C]) @ [i]
         else regex @ [i]))"

definition toRegex :: "string \<Rightarrow> string \<Rightarrow> exn + string" where
  "toRegex s escape =
     (if length escape > 1 then Inl (logic_error ''Internal error'')
      else let e = (if length escape = 1 then escape ! 0 else CHR 0x00)
           in Inr (toRegex_loop e s False ''^'' @ ''$''))"

text \<open>
  The translation as the specification words it: the text for one pattern character,
  escaped or not, and the translation of a pattern under a one-character escape, where
  the escape character gives no output and marks the next character as escaped.
\<close>

definition like_char :: "bool \<Rightarrow> char \<Rightarrow> string" where
  "like_char escaped c =
     (if c = CHR ''%'' then (if escaped then ''%'' else ''.*'')
      else if c = CHR ''_'' then (if escaped then ''_'' else ''.'')
      else if c \<in> {CHR 0x5C, CHR ''^'', CHR ''$'', CHR ''.'', CHR ''*'', CHR ''[''} then [CHR 0x5C, c]
      else if c = CHR '']'' then ''[]]''
      else if c = CHR ''-'' then ''[-]''
      else [c])"

fun like_spec :: "char \<Rightarrow> string \<Rightarrow> string" where
  "like_spec e [] = []"
| "like_spec e [c] = (if c = e then [] else like_char False c)"
| "like_spec e (c # d # s) =
     (if c = e then (if d = e then like_spec e (d # s) else like_char True d @ like_spec e s)
      else like_char False c @ like_spec e (d # s))"

text \<open>
  \<open>std::regex_match\<close> belongs to the C++ library. It is modelled for the part of the
  ECMAScript grammar (the default of \<open>std::regex\<close>) made of the assertions \<open>^\<close> and
  \<open>$\<close>, ordinary characters, identity escapes, \<open>.\<close> and \<open>.*\<close>; \<open>re_parse\<close> gives
  \<open>None\<close> for a regular expression outside this part. \<open>.\<close> matches every character
  but a line terminator, and \<open>regex_match\<close> asks for a match of the whole string.
\<close>

datatype re_item = RBegin | REnd | RChar char | RAny | RAnyStar

definition syntax_character :: "char \<Rightarrow> bool" where
  "syntax_character c \<longleftrightarrow> c \<in> set ''^$.*+?()[]{}|'' \<or> c = CHR 0x5C"

fun re_parse :: "string \<Rightarrow> re_item list option" where
  "re_parse [] = Some []"
| "re_parse (c # rest) =
     (if c = CHR 0x5C then
        (case rest of
           [] \<Rightarrow> None
         | d # rest' \<Rightarrow>
             if syntax_character d then map_option ((#) (RChar d)) (re_parse rest') else None)
      else if c = CHR ''^'' then map_option ((#) RBegin) (re_parse rest)
      else if c = CHR ''$'' then map_option ((#) REnd) (re_parse rest)
      else if c = CHR ''.'' then
        (case rest of
           [] \<Rightarrow> Some [RAny]
         | d # rest' \<Rightarrow>
             if d = CHR ''*'' then map_option ((#) RAnyStar) (re_parse rest')
             else map_option ((#) RAny) (re_parse rest))
      else if syntax_character c then None
      else map_option ((#) (RChar c)) (re_parse rest))"

definition line_terminator :: "char \<Rightarrow> bool" where
  "line_terminator c \<longleftrightarrow> c = CHR 0x0A \<or> c = CHR 0x0D"

fun re_run :: "re_item list \<Rightarrow> bool \<Rightarrow> string \<Rightarrow> bool" where
  "re_run [] at_begin s = (s = [])"
| "re_run (RBegin # items) at_begin s = (at_begin \<and> re_run items at_begin s)"
| "re_run (REnd # items) at_begin s = (s = [] \<and> re_run items at_begin s)"
| "re_run (RChar c # items) at_begin [] = False"
| "re_run (RChar c # items) at_begin (x # s) = (x = c \<and> re_run items False s)"
| "re_run (RAny # items) at_begin [] = False"
| "re_run (RAny # items) at_begin (x # s) = (\<not> line_terminator x \<and> re_run items False s)"
| "re_run (RAnyStar # items) at_begin [] = re_run items at_begin []"
| "re_run (RAnyStar # items) at_begin (x # s) =
     (re_run items at_begin (x # s)
      \<or> (\<not> line_terminator x \<and> re_run (RAnyStar # items) False s))"

definition regex_match_fragment :: "string \<Rightarrow> string \<Rightarrow> bool option" where
  "regex_match_fragment s re = map_option (\<lambda>items. re_run items True s) (re_parse re)"

section \<open>Tokens (SelectorToken.h, consumed interface)\<close>

text \<open>
  Modelled from the spec: a token is a kind and its literal text. The kinds are those the
  parser names.
\<close>

datatype TokenType =
    T_EOS | T_NULL | T_TRUE | T_FALSE | T_NOT | T_AND | T_OR | T_IN | T_IS | T_BETWEEN
  | T_LIKE | T_ESCAPE | T_IDENTIFIER | T_STRING | T_NUMERIC_EXACT | T_NUMERIC_APPROX
  | T_LPAREN | T_RPAREN | T_COMMA | T_PLUS | T_MINUS | T_MULT | T_DIV
  | T_EQUAL | T_NEQ | T_LESS | T_GRT | T_LSEQ | T_GREQ

record Token =
  type :: TokenType
  val :: string

section \<open>Exact numeric literals\<close>

text \<open>
  \<open>strtoull\<close> belongs to the C library. The model follows the C standard: white space is
  skipped, a sign is read, base 0 and base 16 accept the prefix \<open>0x\<close>, base 0 reads a
  leading \<open>0\<close> as octal, the digits are read as far as they are digits of the base, a
  value over \<open>ULLONG_MAX\<close> gives \<open>ULLONG_MAX\<close> with \<open>errno\<close> set, and a minus sign
  negates the value in the unsigned type. The second component says whether \<open>errno\<close>
  was set.
\<close>

definition isspace :: "char \<Rightarrow> bool" where
  "isspace c \<longleftrightarrow> c \<in> {CHR 0x20, CHR 0x09, CHR 0x0A, CHR 0x0B, CHR 0x0C, CHR 0x0D}"

definition digit_value :: "char \<Rightarrow> nat option" where
  "digit_value c =
     (let n = (of_char c :: nat) in
      if 48 \<le> n \<and> n \<le> 57 then Some (n - 48)
      else if 97 \<le> n \<and> n \<le> 122 then Some (n - 87)
      else if 65 \<le> n \<and> n \<le> 90 then Some (n - 55)
      else None)"

fun strtoull_digits :: "nat \<Rightarrow> string \<Rightarrow> nat \<Rightarrow> nat" where
  "strtoull_digits base [] acc = acc"
| "strtoull_digits base (c # cs) acc =
     (case digit_value c of
        None \<Rightarrow> acc
      | Some d \<Rightarrow> if d < base then strtoull_digits base cs (acc * base + d) else acc)"

definition strtoull :: "string \<Rightarrow> nat \<Rightarrow> 64 word \<times> bool" where
  "strtoull nptr base =
     (if base = 1 \<or> base > 36 then (0, True)
      else
        let s1 = dropWhile isspace nptr;
            negative = (s1 \<noteq> [] \<and> hd s1 = CHR ''-'');
            s2 = (if s1 \<noteq> [] \<and> (hd s1 = CHR ''-'' \<or> hd s1 = CHR ''+'') then tl s1 else s1);
            hex_prefix = (length s2 \<ge> 2 \<and> s2 ! 0 = CHR ''0''
                          \<and> (s2 ! 1 = CHR ''x'' \<or> s2 ! 1 = CHR ''X''));
            b = (if (base = 0 \<or> base = 16) \<and> hex_prefix then 16
                 else if base = 0 then (if s2 \<noteq> [] \<and> hd s2 = CHR ''0'' then 8 else 10)
                 else base);
            s3 = (if (base = 0 \<or> base = 16) \<and> hex_prefix then drop 2 s2 else s2);
            n = strtoull_digits b s3 0
        in if n > 2 ^ 64 - 1 then (- 1, True)
           else (if negative then - word_of_nat n else word_of_nat n, False))"

definition INT64_MAX :: "64 word" where
  "INT64_MAX = 0x7FFFFFFFFFFFFFFF"

definition INT64_MIN :: "64 word" where
  "INT64_MIN = 0x8000000000000000"

text \<open>
  \<open>s[i]\<close> of a \<open>std::string\<close>: the character at \<open>i\<close>, and the terminating \<open>0\<close> at
  \<open>i = size()\<close>. The tokeniser gives an exact numeric token a text that starts with a
  digit, so that \<open>s[1]\<close> is never read beyond the terminator.
\<close>

definition string_at :: "string \<Rightarrow> nat \<Rightarrow> char" where
  "string_at s i = (if i < length s then s ! i else CHR 0x00)"

text \<open>
  \<open>Parse::parseExactNumeric\<close>. It returns the literal or the null pointer, and the value
  of the member \<open>error\<close> after the call. The negation \<open>-r\<close> is taken in two's
  complement, as the compiled code does; it overflows only for \<open>r = INT64_MIN\<close>, that
  is for a literal with a radix and the value \<open>2^63\<close> under the fused minus.
\<close>

definition parseExactNumeric :: "Token \<Rightarrow> bool \<Rightarrow> string \<Rightarrow> 'd ValueExpression option \<times> string" where
  "parseExactNumeric token negate err =
     (let s0 = filter (\<lambda>c. c \<noteq> CHR ''_'') (val token);
          base0 = (if string_at s0 1 = CHR ''b'' \<or> string_at s0 1 = CHR ''B'' then 2
                   else if string_at s0 1 = CHR ''x'' \<or> string_at s0 1 = CHR ''X'' then 16
                   else 0);
          s = (if string_at s0 1 = CHR ''b'' \<or> string_at s0 1 = CHR ''B'' then drop 2 s0
               else if string_at s0 1 = CHR ''x'' \<or> string_at s0 1 = CHR ''X'' then drop 2 s0
               else s0);
          base = (if string_at s 0 = CHR ''0'' then 8 else base0);
          value = fst (strtoull s base);
          errno = snd (strtoull s base)
      in if \<not> errno \<and> (base \<noteq> 0 \<or> value \<le> INT64_MAX) then
           (let r = value in (Some (Literal (V_EXACT (if negate then - r else r))), err))
         else if negate \<and> value = INT64_MAX + 1 then (Some (Literal (V_EXACT INT64_MIN)), err)
         else (None, ''integer literal too big''))"

text \<open>
  The reading of a digit string that the specification speaks of: \<open>is_digit_of base c\<close>
  says that \<open>c\<close> is a digit of the radix, and \<open>digits_value base ds\<close> is the number that
  the digits \<open>ds\<close> denote in it.
\<close>

definition is_digit_of :: "nat \<Rightarrow> char \<Rightarrow> bool" where
  "is_digit_of base c = (case digit_value c of None \<Rightarrow> False | Some d \<Rightarrow> d < base)"

definition digit_num :: "char \<Rightarrow> nat" where
  "digit_num c = (case digit_value c of None \<Rightarrow> 0 | Some d \<Rightarrow> d)"

definition digits_value :: "nat \<Rightarrow> string \<Rightarrow> nat" where
  "digits_value base ds = foldl (\<lambda>acc c. acc * base + digit_num c) 0 ds"

section \<open>The token stream (SelectorToken.h, consumed interface)\<close>

text \<open>
  Modelled from the spec: the class \<open>Tokeniser\<close> is not part of the source file. The
  spec gives it as a stream of tokens with a cursor: \<open>nextToken\<close> returns the next token
  and advances, and returns the end-of-stream token forever after exhaustion;
  \<open>returnTokens\<close> steps back over the token returned last, so that the next \<open>nextToken\<close>
  yields it again. \<open>tokens\<close> holds the tokens of the selector text before the end of
  the stream; the text of the end-of-stream token is taken to be empty.
\<close>

record Tokeniser =
  tokens :: "Token list"
  tokp :: nat

definition EOS_token :: Token where
  "EOS_token = \<lparr>type = T_EOS, val = []\<rparr>"

definition nextToken :: "Tokeniser \<Rightarrow> Token \<times> Tokeniser" where
  "nextToken tk =
     (if tokp tk < length (tokens tk) then (tokens tk ! tokp tk, tk\<lparr>tokp := Suc (tokp tk)\<rparr>)
      else (EOS_token, tk\<lparr>tokp := Suc (length (tokens tk))\<rparr>))"

definition returnTokens :: "Tokeniser \<Rightarrow> Tokeniser" where
  "returnTokens tk = tk\<lparr>tokp := tokp tk - 1\<rparr>"

section \<open>The parser\<close>

text \<open>
  The state that the productions of \<open>Parse\<close> work on: the tokeniser they are given by
  reference, and the member \<open>error\<close>.
\<close>

record ParseState =
  tokeniser :: Tokeniser
  error :: string

definition nextTok :: "ParseState \<Rightarrow> Token \<times> ParseState" where
  "nextTok st =
     (fst (nextToken (tokeniser st)), st\<lparr>tokeniser := snd (nextToken (tokeniser st))\<rparr>)"

definition returnTok :: "ParseState \<Rightarrow> ParseState" where
  "returnTok st = st\<lparr>tokeniser := returnTokens (tokeniser st)\<rparr>"

definition set_error :: "string \<Rightarrow> ParseState \<Rightarrow> ParseState" where
  "set_error msg st = st\<lparr>error := msg\<rparr>"

text \<open>
  What a production does: it throws, or it returns a value (for a pointer, \<open>None\<close> is the
  null pointer) and leaves a state. The productions call each other recursively along
  the token stream; the model bounds the depth of the calls by a counter, and
  \<open>OutOfFuel\<close> says that the counter was too small.
\<close>

datatype 'a result = OutOfFuel | Throw exn | Return 'a ParseState

definition bind :: "'a result \<Rightarrow> ('a \<Rightarrow> ParseState \<Rightarrow> 'b result) \<Rightarrow> 'b result" where
  "bind m f = (case m of OutOfFuel \<Rightarrow> OutOfFuel | Throw x \<Rightarrow> Throw x | Return a st \<Rightarrow> f a st)"

text \<open>The call of a production followed by \<open>if (!e) return nullptr;\<close>.\<close>

definition bind_ptr ::
    "'a option result \<Rightarrow> ('a \<Rightarrow> ParseState \<Rightarrow> 'b option result) \<Rightarrow> 'b option result" where
  "bind_ptr m f = bind m (\<lambda>p st. case p of None \<Rightarrow> Return None st | Some e \<Rightarrow> f e st)"

text \<open>\<open>throwParseError\<close>: the exception it throws.\<close>

definition throwParseError :: "Tokeniser \<Rightarrow> string \<Rightarrow> exn" where
  "throwParseError tk msg =
     range_error (''Illegal selector: '' @ [CHR 0x27] @ val (fst (nextToken (returnTokens tk)))
                  @ [CHR 0x27] @ '': '' @ msg)"

text \<open>
  The constructor of \<open>LikeExpression\<close>: \<open>toRegex\<close> may throw, and so may the constructor
  of \<open>std::regex\<close>.
\<close>

definition new_LikeExpression ::
    "'d externals \<Rightarrow> 'd ValueExpression \<Rightarrow> string \<Rightarrow> string \<Rightarrow> exn + 'd ValueExpression" where
  "new_LikeExpression ext e like escape =
     (case toRegex like escape of
        Inl x \<Rightarrow> Inl x
      | Inr reString \<Rightarrow>
          if regex_valid ext reString then Inr (LikeExpression e reString)
          else Inl (regex_error reString))"

definition parseApproxNumeric ::
    "'d externals \<Rightarrow> Token \<Rightarrow> string \<Rightarrow> 'd ValueExpression option \<times> string" where
  "parseApproxNumeric ext token err =
     (let s = filter (\<lambda>c. c \<noteq> CHR ''_'') (val token);
          value = fst (strtod ext s);
          errno = snd (strtod ext s)
      in if \<not> errno then (Some (Literal (V_INEXACT value)), err)
         else (None, ''floating literal overflow/underflow''))"

definition primaryExpression :: "'d externals \<Rightarrow> ParseState \<Rightarrow> 'd ValueExpression option result" where
  "primaryExpression ext st =
     (let (t, st1) = nextTok st in
      if type t = T_IDENTIFIER then Return (Some (Identifier (val t))) st1
      else if type t = T_STRING then Return (Some (StringLiteral (val t))) st1
      else if type t = T_FALSE then Return (Some (Literal (V_BOOL False))) st1
      else if type t = T_TRUE then Return (Some (Literal (V_BOOL True))) st1
      else if type t = T_NUMERIC_EXACT then
        (case parseExactNumeric t False (error st1) of (p, e) \<Rightarrow> Return p (st1\<lparr>error := e\<rparr>))
      else if type t = T_NUMERIC_APPROX then
        (case parseApproxNumeric ext t (error st1) of (p, e) \<Rightarrow> Return p (st1\<lparr>error := e\<rparr>))
      else Return None (set_error ''expected literal or identifier'' st1))"

text \<open>The operators that the switch statements of the productions choose.\<close>

definition comparison_op_of :: "TokenType \<Rightarrow> ComparisonOperator option" where
  "comparison_op_of ty =
     (if ty = T_EQUAL then Some Eq
      else if ty = T_NEQ then Some Neq
      else if ty = T_LESS then Some Ls
      else if ty = T_GRT then Some Gr
      else if ty = T_LSEQ then Some Lseq
      else if ty = T_GREQ then Some Greq
      else None)"

definition add_op_of :: "TokenType \<Rightarrow> ArithmeticOperator option" where
  "add_op_of ty = (if ty = T_PLUS then Some Add else if ty = T_MINUS then Some Sub else None)"

definition mult_op_of :: "TokenType \<Rightarrow> ArithmeticOperator option" where
  "mult_op_of ty = (if ty = T_MULT then Some Mult else if ty = T_DIV then Some Div else None)"

text \<open>\<open>negated\<close> wraps a special comparison in a NOT node.\<close>

definition wrap_negated :: "bool \<Rightarrow> 'd ValueExpression \<Rightarrow> 'd ValueExpression" where
  "wrap_negated negated b = (if negated then UnaryBooleanExpression Not b else b)"

text \<open>
  The productions. Each takes the counter first; the loops of \<open>orExpression\<close>,
  \<open>andExpression\<close>, \<open>addExpression\<close>, \<open>multiplyExpression\<close> and of the list of IN are
  functions of their own (\<open>orLoop\<close>, \<open>andLoop\<close>, \<open>addLoop\<close>, \<open>multiplyLoop\<close>, \<open>inList\<close>).
\<close>

function orExpression :: "'d externals \<Rightarrow> nat \<Rightarrow> ParseState \<Rightarrow> 'd ValueExpression option result"
  and orLoop :: "'d externals \<Rightarrow> nat \<Rightarrow> 'd ValueExpression \<Rightarrow> ParseState \<Rightarrow> 'd ValueExpression option result"
  and andExpression :: "'d externals \<Rightarrow> nat \<Rightarrow> ParseState \<Rightarrow> 'd ValueExpression option result"
  and andLoop :: "'d externals \<Rightarrow> nat \<Rightarrow> 'd ValueExpression \<Rightarrow> ParseState \<Rightarrow> 'd ValueExpression option result"
  and specialComparisons ::
    "'d externals \<Rightarrow> nat \<Rightarrow> 'd ValueExpression \<Rightarrow> bool \<Rightarrow> ParseState \<Rightarrow> 'd ValueExpression option result"
  and inList ::
    "'d externals \<Rightarrow> nat \<Rightarrow> 'd ValueExpression list \<Rightarrow> ParseState \<Rightarrow> 'd ValueExpression list option result"
  and comparisonExpression :: "'d externals \<Rightarrow> nat \<Rightarrow> ParseState \<Rightarrow> 'd ValueExpression option result"
  and addExpression :: "'d externals \<Rightarrow> nat \<Rightarrow> ParseState \<Rightarrow> 'd ValueExpression option result"
  and addLoop ::
    "'d externals \<Rightarrow> nat \<Rightarrow> 'd ValueExpression \<Rightarrow> Token \<Rightarrow> ParseState \<Rightarrow> 'd ValueExpression option result"
  and multiplyExpression :: "'d externals \<Rightarrow> nat \<Rightarrow> ParseState \<Rightarrow> 'd ValueExpression option result"
  and multiplyLoop ::
    "'d externals \<Rightarrow> nat \<Rightarrow> 'd ValueExpression \<Rightarrow> Token \<Rightarrow> ParseState \<Rightarrow> 'd ValueExpression option result"
  and unaryArithExpression :: "'d externals \<Rightarrow> nat \<Rightarrow> ParseState \<Rightarrow> 'd ValueExpression option result"
where
  "orExpression ext 0 st = OutOfFuel"
| "orExpression ext (Suc n) st =
     bind_ptr (andExpression ext n st) (\<lambda>e st1. orLoop ext n e st1)"
| "orLoop ext 0 e st = OutOfFuel"
| "orLoop ext (Suc n) e st =
     (let (t, st1) = nextTok st in
      if type t = T_OR then
        bind_ptr (andExpression ext n st1) (\<lambda>e1 st2. orLoop ext n (OrExpression e e1) st2)
      else Return (Some e) (returnTok st1))"
| "andExpression ext 0 st = OutOfFuel"
| "andExpression ext (Suc n) st =
     bind_ptr (comparisonExpression ext n st) (\<lambda>e st1. andLoop ext n e st1)"
| "andLoop ext 0 e st = OutOfFuel"
| "andLoop ext (Suc n) e st =
     (let (t, st1) = nextTok st in
      if type t = T_AND then
        bind_ptr (comparisonExpression ext n st1) (\<lambda>e1 st2. andLoop ext n (AndExpression e e1) st2)
      else Return (Some e) (returnTok st1))"
| "specialComparisons ext 0 e1 negated st = OutOfFuel"
| "specialComparisons ext (Suc n) e1 negated st =
     (let (t0, st0) = nextTok st in
      if type t0 = T_LIKE then
        (let (t, st1) = nextTok st0 in
         if type t \<noteq> T_STRING then Return None (set_error ''expected string after LIKE'' st1)
         else
           let (t2, st2) = nextTok st1 in
           if type t2 = T_ESCAPE then
             (let (e, st3) = nextTok st2 in
              if type e \<noteq> T_STRING then
                Return None (set_error ''expected string after ESCAPE'' st3)
              else if length (val e) > 1 then
                Throw (throwParseError (tokeniser st3)
                         ''single character string required after ESCAPE'')
              else if val e = ''%'' \<or> val e = ''_'' then
                Throw (throwParseError (tokeniser st3)
                         ([CHR 0x27] @ ''%'' @ [CHR 0x27] @ '' and '' @ [CHR 0x27] @ ''_''
                          @ [CHR 0x27] @ '' are not allowed as ESCAPE characters''))
              else
                (case new_LikeExpression ext e1 (val t) (val e) of
                   Inl x \<Rightarrow> Throw x
                 | Inr l \<Rightarrow> Return (Some (wrap_negated negated l)) st3))
           else
             (case new_LikeExpression ext e1 (val t) [] of
                Inl x \<Rightarrow> Throw x
              | Inr l \<Rightarrow> Return (Some (wrap_negated negated l)) (returnTok st2)))
      else if type t0 = T_BETWEEN then
        bind_ptr (addExpression ext n st0) (\<lambda>lower st1.
          let (t, st2) = nextTok st1 in
          if type t \<noteq> T_AND then Return None (set_error ''expected AND after BETWEEN'' st2)
          else
            bind_ptr (addExpression ext n st2) (\<lambda>upper st3.
              Return (Some (wrap_negated negated (BetweenExpression e1 lower upper))) st3))
      else if type t0 = T_IN then
        (let (t, st1) = nextTok st0 in
         if type t \<noteq> T_LPAREN then
           Return None (set_error (''missing '' @ [CHR 0x27] @ ''('' @ [CHR 0x27] @ '' after IN'') st1)
         else
           bind_ptr (inList ext n [] st1) (\<lambda>list st2.
             let (t2, st3) = nextTok (returnTok st2) in
             if type t2 \<noteq> T_RPAREN then
               Return None
                 (set_error (''missing '' @ [CHR 0x27] @ '','' @ [CHR 0x27] @ '' or ''
                             @ [CHR 0x27] @ '')'' @ [CHR 0x27] @ '' after IN'') st3)
             else if negated then Return (Some (NotInExpression e1 list)) st3
             else Return (Some (InExpression e1 list)) st3))
      else Return None (set_error ''expected LIKE, IN or BETWEEN'' st0))"
| "inList ext 0 list st = OutOfFuel"
| "inList ext (Suc n) list st =
     bind_ptr (addExpression ext n st) (\<lambda>e st1.
       let (t, st2) = nextTok st1 in
       if type t = T_COMMA then inList ext n (list @ [e]) st2
       else Return (Some (list @ [e])) st2)"
| "comparisonExpression ext 0 st = OutOfFuel"
| "comparisonExpression ext (Suc n) st =
     (let (t, st1) = nextTok st in
      if type t = T_NOT then
        bind_ptr (comparisonExpression ext n st1) (\<lambda>e st2.
          Return (Some (UnaryBooleanExpression Not e)) st2)
      else
        bind_ptr (addExpression ext n (returnTok st1)) (\<lambda>e1 st2.
          let (t1, st3) = nextTok st2 in
          if type t1 = T_IS then
            (let (t2, st4) = nextTok st3 in
             if type t2 = T_NULL then Return (Some (UnaryBooleanExpression IsNull e1)) st4
             else if type t2 = T_NOT then
               (let (t3, st5) = nextTok st4 in
                if type t3 = T_NULL then Return (Some (UnaryBooleanExpression IsNonNull e1)) st5
                else Return None (set_error ''expected NULL or NOT NULL after IS'' st5))
             else Return None (set_error ''expected NULL or NOT NULL after IS'' st4))
          else if type t1 = T_NOT then specialComparisons ext n e1 True st3
          else if type t1 = T_BETWEEN \<or> type t1 = T_LIKE \<or> type t1 = T_IN then
            specialComparisons ext n e1 False (returnTok st3)
          else
            (let (t2, st4) = nextTok (returnTok st3) in
             case comparison_op_of (type t2) of
               None \<Rightarrow> Return (Some e1) (returnTok st4)
             | Some op \<Rightarrow>
                 bind_ptr (addExpression ext n st4) (\<lambda>e2 st5.
                   Return (Some (ComparisonExpression op e1 e2)) st5))))"
| "addExpression ext 0 st = OutOfFuel"
| "addExpression ext (Suc n) st =
     bind_ptr (multiplyExpression ext n st) (\<lambda>e st1.
       let (t, st2) = nextTok st1 in addLoop ext n e t st2)"
| "addLoop ext 0 e t st = OutOfFuel"
| "addLoop ext (Suc n) e t st =
     (if type t = T_PLUS \<or> type t = T_MINUS then
        (case add_op_of (type t) of
           None \<Rightarrow> Return None (set_error ''internal error processing binary + or -'' st)
         | Some op \<Rightarrow>
             bind_ptr (multiplyExpression ext n st) (\<lambda>e1 st1.
               let (t', st2) = nextTok st1 in
               addLoop ext n (ArithmeticExpression op e e1) t' st2))
      else Return (Some e) (returnTok st))"
| "multiplyExpression ext 0 st = OutOfFuel"
| "multiplyExpression ext (Suc n) st =
     bind_ptr (unaryArithExpression ext n st) (\<lambda>e st1.
       let (t, st2) = nextTok st1 in multiplyLoop ext n e t st2)"
| "multiplyLoop ext 0 e t st = OutOfFuel"
| "multiplyLoop ext (Suc n) e t st =
     (if type t = T_MULT \<or> type t = T_DIV then
        (case mult_op_of (type t) of
           None \<Rightarrow> Return None (set_error ''internal error processing * or /'' st)
         | Some op \<Rightarrow>
             bind_ptr (unaryArithExpression ext n st) (\<lambda>e1 st1.
               let (t', st2) = nextTok st1 in
               multiplyLoop ext n (ArithmeticExpression op e e1) t' st2))
      else Return (Some e) (returnTok st))"
| "unaryArithExpression ext 0 st = OutOfFuel"
| "unaryArithExpression ext (Suc n) st =
     (let (t, st1) = nextTok st in
      if type t = T_LPAREN then
        bind_ptr (orExpression ext n st1) (\<lambda>e st2.
          let (t2, st3) = nextTok st2 in
          if type t2 \<noteq> T_RPAREN then
            Return None
              (set_error (''missing '' @ [CHR 0x27] @ '')'' @ [CHR 0x27] @ '' after ''
                          @ [CHR 0x27] @ ''('' @ [CHR 0x27]) st3)
          else Return (Some e) st3)
      else if type t = T_PLUS then primaryExpression ext st1
      else if type t = T_MINUS then
        (let (t2, st2) = nextTok st1 in
         if type t2 = T_NUMERIC_EXACT then
           (case parseExactNumeric t2 True (error st2) of
              (p, e) \<Rightarrow> Return p (st2\<lparr>error := e\<rparr>))
         else
           bind_ptr (unaryArithExpression ext n (returnTok st2)) (\<lambda>e st3.
             Return (Some (UnaryArithExpression Negate e)) st3))
      else primaryExpression ext (returnTok st1))"

  by pat_completeness auto

text \<open>Every call passes on a smaller counter; the measure reads it from the arguments.\<close>

termination
  by (relation "measure
    (case_sum
     (case_sum
      (case_sum (\<lambda>p. fst (snd p))
       (case_sum (\<lambda>p. fst (snd p)) (\<lambda>p. fst (snd p))))
      (case_sum (\<lambda>p. fst (snd p))
       (case_sum (\<lambda>p. fst (snd p)) (\<lambda>p. fst (snd p)))))
     (case_sum
      (case_sum (\<lambda>p. fst (snd p))
       (case_sum (\<lambda>p. fst (snd p)) (\<lambda>p. fst (snd p))))
      (case_sum (\<lambda>p. fst (snd p))
       (case_sum (\<lambda>p. fst (snd p)) (\<lambda>p. fst (snd p))))))")
    simp_all

definition selectorExpression :: "'d externals \<Rightarrow> nat \<Rightarrow> ParseState \<Rightarrow> 'd ValueExpression option result" where
  "selectorExpression ext n st =
     (let (t, st1) = nextTok st in
      if type t = T_EOS then Return (Some (Literal (V_BOOL True))) st1
      else orExpression ext n (returnTok st1))"

text \<open>
  The compiled expression: \<open>ConcreteExpression\<close> owns the pointer to the root node that
  its constructor is given, which is the null pointer (\<open>None\<close>) when the parser returned
  one.
\<close>

datatype 'd Expression = ConcreteExpression "'d ValueExpression option"

text \<open>\<open>std::make_unique\<close> never returns a null pointer.\<close>

definition make_unique_ConcreteExpression :: "'d ValueExpression option \<Rightarrow> 'd Expression option" where
  "make_unique_ConcreteExpression p = Some (ConcreteExpression p)"

text \<open>
  \<open>make_selector\<close>, on the tokens that the tokeniser finds in the selector text.
\<close>

definition make_selector :: "'d externals \<Rightarrow> nat \<Rightarrow> Token list \<Rightarrow> 'd Expression result" where
  "make_selector ext n exp_tokens =
     bind (selectorExpression ext n \<lparr>tokeniser = \<lparr>tokens = exp_tokens, tokp = 0\<rparr>, error = []\<rparr>)
       (\<lambda>p st.
          case make_unique_ConcreteExpression p of
            None \<Rightarrow> Throw (throwParseError (tokeniser st) (error st))
          | Some b \<Rightarrow>
              let (t, st1) = nextTok st in
              if type t \<noteq> T_EOS then Throw (throwParseError (tokeniser st1) ''extra input'')
              else Return b st1)"

section \<open>An instance of the external operators\<close>

text \<open>
  An instance of the parameters on exact integers, strings and booleans, used to
  evaluate the theorems below at concrete expressions.
\<close>

definition sample_externals :: "unit externals" where
  "sample_externals =
     \<lparr> op_eq = (=), op_ne = (\<noteq>),
       op_lt = (\<lambda>a b. case (a, b) of (V_EXACT x, V_EXACT y) \<Rightarrow> sint x < sint y | _ \<Rightarrow> False),
       op_gt = (\<lambda>a b. case (a, b) of (V_EXACT x, V_EXACT y) \<Rightarrow> sint x > sint y | _ \<Rightarrow> False),
       op_le = (\<lambda>a b. case (a, b) of (V_EXACT x, V_EXACT y) \<Rightarrow> sint x \<le> sint y | _ \<Rightarrow> False),
       op_ge = (\<lambda>a b. case (a, b) of (V_EXACT x, V_EXACT y) \<Rightarrow> sint x \<ge> sint y | _ \<Rightarrow> False),
       op_neg = (\<lambda>a. case a of V_EXACT x \<Rightarrow> V_EXACT (- x) | _ \<Rightarrow> V_UNKNOWN),
       op_add = (\<lambda>a b. case (a, b) of (V_EXACT x, V_EXACT y) \<Rightarrow> V_EXACT (x + y) | _ \<Rightarrow> V_UNKNOWN),
       op_sub = (\<lambda>a b. case (a, b) of (V_EXACT x, V_EXACT y) \<Rightarrow> V_EXACT (x - y) | _ \<Rightarrow> V_UNKNOWN),
       op_mul = (\<lambda>a b. case (a, b) of (V_EXACT x, V_EXACT y) \<Rightarrow> V_EXACT (x * y) | _ \<Rightarrow> V_UNKNOWN),
       op_div = (\<lambda>a b. V_UNKNOWN),
       regex_match = (\<lambda>s re. regex_match_fragment s re = Some True),
       regex_valid = (\<lambda>re. re_parse re \<noteq> None),
       strtod = (\<lambda>s. ((), False)) \<rparr>"

section \<open>Tri-state evaluation\<close>

text \<open>
  C7. For every environment, an AND node is \<open>False\<close> if either operand is \<open>False\<close>
  (also when the other is \<open>Unknown\<close>), \<open>True\<close> only if both are \<open>True\<close> and
  \<open>Unknown\<close> otherwise; an OR node is \<open>True\<close> if either operand is \<open>True\<close>,
  \<open>False\<close> only if both are \<open>False\<close> and \<open>Unknown\<close> otherwise; NOT maps
  \<open>True\<close> to \<open>False\<close>, \<open>False\<close> to \<open>True\<close> and \<open>Unknown\<close> to \<open>Unknown\<close>.
\<close>

theorem tri_state_laws:
  "eval_bool ops (AndExpression e1 e2) env =
     (if eval_bool ops e1 env = BN_FALSE \<or> eval_bool ops e2 env = BN_FALSE then BN_FALSE
      else if eval_bool ops e1 env = BN_TRUE \<and> eval_bool ops e2 env = BN_TRUE then BN_TRUE
      else BN_UNKNOWN)
   \<and> eval_bool ops (OrExpression e1 e2) env =
     (if eval_bool ops e1 env = BN_TRUE \<or> eval_bool ops e2 env = BN_TRUE then BN_TRUE
      else if eval_bool ops e1 env = BN_FALSE \<and> eval_bool ops e2 env = BN_FALSE then BN_FALSE
      else BN_UNKNOWN)
   \<and> eval_bool ops (UnaryBooleanExpression Not e1) env =
     (case eval_bool ops e1 env of
        BN_TRUE \<Rightarrow> BN_FALSE | BN_FALSE \<Rightarrow> BN_TRUE | BN_UNKNOWN \<Rightarrow> BN_UNKNOWN)"
  by (simp add: Let_def BoolOrNone_of_def split: BoolOrNone.splits)

text \<open>
  C9. For every environment, \<open>x BETWEEN a AND b\<close> is \<open>Unknown\<close> if any of \<open>x\<close>,
  \<open>a\<close>, \<open>b\<close> evaluates to the unknown value; otherwise its result is that of the
  conjunction \<open>x >= a AND x <= b\<close>: \<open>True\<close> exactly when both comparisons of the
  underlying Value ordering hold, else \<open>False\<close>.
\<close>

theorem between_eval:
  "eval_bool ops (BetweenExpression x a b) env =
     (if unknown (eval ops x env) \<or> unknown (eval ops a env) \<or> unknown (eval ops b env)
      then BN_UNKNOWN
      else eval_bool ops
             (AndExpression (ComparisonExpression Greq x a) (ComparisonExpression Lseq x b)) env)
   \<and> (\<not> unknown (eval ops x env) \<and> \<not> unknown (eval ops a env) \<and> \<not> unknown (eval ops b env) \<longrightarrow>
        (eval_bool ops (BetweenExpression x a b) env = BN_TRUE
           \<longleftrightarrow> op_ge ops (eval ops x env) (eval ops a env) \<and> op_le ops (eval ops x env) (eval ops b env))
        \<and> (eval_bool ops (BetweenExpression x a b) env = BN_FALSE
           \<longleftrightarrow> \<not> (op_ge ops (eval ops x env) (eval ops a env) \<and> op_le ops (eval ops x env) (eval ops b env))))"
  by (simp add: Let_def BoolOrNone_of_def booleval_def)

theorem between_eval_witness:
  "\<not> unknown (eval sample_externals (Literal (V_EXACT 5)) (\<lambda>_. V_UNKNOWN :: unit Value))
   \<and> \<not> unknown (eval sample_externals (Literal (V_EXACT 1)) (\<lambda>_. V_UNKNOWN))
   \<and> \<not> unknown (eval sample_externals (Literal (V_EXACT 9)) (\<lambda>_. V_UNKNOWN))
   \<and> eval_bool sample_externals
       (BetweenExpression (Literal (V_EXACT 5)) (Literal (V_EXACT 1)) (Literal (V_EXACT 9)))
       (\<lambda>_. V_UNKNOWN) = BN_TRUE"
proof -
  let ?env = "\<lambda>_. V_UNKNOWN :: unit Value"
  have h: "\<not> unknown (eval sample_externals (Literal (V_EXACT 5)) ?env)
      \<and> \<not> unknown (eval sample_externals (Literal (V_EXACT 1)) ?env)
      \<and> \<not> unknown (eval sample_externals (Literal (V_EXACT 9)) ?env)"
    by simp
  have c: "op_ge sample_externals (eval sample_externals (Literal (V_EXACT 5)) ?env)
             (eval sample_externals (Literal (V_EXACT 1)) ?env)
      \<and> op_le sample_externals (eval sample_externals (Literal (V_EXACT 5)) ?env)
             (eval sample_externals (Literal (V_EXACT 9)) ?env)"
    by (simp add: sample_externals_def)
  from between_eval [of sample_externals "Literal (V_EXACT 5)" "Literal (V_EXACT 1)"
      "Literal (V_EXACT 9)" ?env] h c
  show ?thesis by blast
qed

text \<open>
  C10. If the left operand of a LIKE node evaluates to a value that is not a string (an
  integer, a double, a boolean or the unknown value), the node evaluates to \<open>Unknown\<close>,
  and so does its NOT LIKE wrapping; evaluation is a total function, no error is raised,
  and the result does not depend on the regular expression matcher, which is applied to
  string values only.
\<close>

theorem like_non_string_unknown:
  "(\<forall>s. eval ops e env \<noteq> V_STRING s) \<Longrightarrow>
     eval_bool ops (LikeExpression e re) env = BN_UNKNOWN
     \<and> eval_bool ops (UnaryBooleanExpression Not (LikeExpression e re)) env = BN_UNKNOWN
     \<and> eval_bool (ops\<lparr>regex_match := rm\<rparr>) (LikeExpression (Literal (eval ops e env)) re) env
         = BN_UNKNOWN"
  by (cases "eval ops e env") (simp_all add: Let_def)

theorem like_non_string_unknown_witness:
  "(\<forall>s. eval sample_externals (Literal (V_EXACT 7)) (\<lambda>_. V_UNKNOWN) \<noteq> V_STRING s)
   \<and> eval_bool sample_externals (LikeExpression (Literal (V_EXACT 7)) ''^7$'') (\<lambda>_. V_UNKNOWN)
       = BN_UNKNOWN
   \<and> eval_bool sample_externals
       (UnaryBooleanExpression Not (LikeExpression (Literal (V_EXACT 7)) ''^7$'')) (\<lambda>_. V_UNKNOWN)
       = BN_UNKNOWN"
proof -
  have h: "\<forall>s. eval sample_externals (Literal (V_EXACT 7)) (\<lambda>_. V_UNKNOWN) \<noteq> V_STRING s"
    by simp
  show ?thesis
    using h like_non_string_unknown [OF h, of "''^7$''" "\<lambda>s re. True"] by simp
qed

section \<open>IN and NOT IN\<close>

lemma in_loop_char:
  "in_loop ops ve r vs =
     (if \<exists>v\<in>set vs. \<not> unknown v \<and> op_eq ops ve v then BN_TRUE
      else if \<exists>v\<in>set vs. unknown v then BN_UNKNOWN
      else r)"
  by (induction vs arbitrary: r) auto

lemma not_in_loop_unknown:
  "not_in_loop ops ve BN_UNKNOWN vs =
     (if \<exists>v\<in>set vs. \<not> unknown v \<and> op_eq ops ve v then BN_FALSE else BN_UNKNOWN)"
  by (induction vs) auto

lemma not_in_loop_char:
  assumes "\<forall>v. op_eq ops ve v \<longrightarrow> sameType ve v \<or> (numeric ve \<and> numeric v)"
    and "r \<noteq> BN_UNKNOWN"
  shows "not_in_loop ops ve r vs =
     (if \<exists>v\<in>set vs. \<not> unknown v \<and> op_eq ops ve v then BN_FALSE
      else if \<exists>v\<in>set vs. unknown v then BN_UNKNOWN
      else if \<exists>v\<in>set vs. \<not> sameType ve v \<and> \<not> (numeric ve \<and> numeric v) then BN_FALSE
      else r)"
  using assms
  by (induction vs arbitrary: r) (auto simp: not_in_loop_unknown)

text \<open>
  C5, as amended. For every environment, \<open>x IN (v1..vn)\<close> is \<open>True\<close> if \<open>x\<close> is known
  and equals some known \<open>vi\<close>; \<open>Unknown\<close> if \<open>x\<close> is unknown, or if no \<open>vi\<close> equals
  \<open>x\<close> but some \<open>vi\<close> is unknown; \<open>False\<close> otherwise. \<open>x NOT IN (v1..vn)\<close> is
  \<open>Unknown\<close> when \<open>x\<close> is unknown and \<open>False\<close> when \<open>x\<close> equals a known \<open>vi\<close>; when
  nothing matches, a known \<open>vi\<close> whose type is incompatible with \<open>x\<close> (not the same type
  and not both numeric) makes the result \<open>False\<close>, unless some \<open>vi\<close>, before or after
  it, is unknown, which makes the result \<open>Unknown\<close>; otherwise the result is \<open>True\<close>.
  The equality of Value is a parameter; for NOT IN it is taken to hold only between
  values of compatible types.
\<close>

theorem in_not_in_eval:
  "eval_bool ops (InExpression x l) env =
     (if unknown (eval ops x env) then BN_UNKNOWN
      else if \<exists>v\<in>set (map (\<lambda>le. eval ops le env) l). \<not> unknown v \<and> op_eq ops (eval ops x env) v
        then BN_TRUE
      else if \<exists>v\<in>set (map (\<lambda>le. eval ops le env) l). unknown v then BN_UNKNOWN
      else BN_FALSE)
   \<and> ((\<forall>v. op_eq ops (eval ops x env) v \<longrightarrow>
           sameType (eval ops x env) v \<or> (numeric (eval ops x env) \<and> numeric v)) \<longrightarrow>
        eval_bool ops (NotInExpression x l) env =
          (if unknown (eval ops x env) then BN_UNKNOWN
           else if \<exists>v\<in>set (map (\<lambda>le. eval ops le env) l).
                     \<not> unknown v \<and> op_eq ops (eval ops x env) v
             then BN_FALSE
           else if \<exists>v\<in>set (map (\<lambda>le. eval ops le env) l). unknown v then BN_UNKNOWN
           else if \<exists>v\<in>set (map (\<lambda>le. eval ops le env) l).
                     \<not> sameType (eval ops x env) v \<and> \<not> (numeric (eval ops x env) \<and> numeric v)
             then BN_FALSE
           else BN_TRUE))"
proof (intro conjI impI)
  show "eval_bool ops (InExpression x l) env =
     (if unknown (eval ops x env) then BN_UNKNOWN
      else if \<exists>v\<in>set (map (\<lambda>le. eval ops le env) l). \<not> unknown v \<and> op_eq ops (eval ops x env) v
        then BN_TRUE
      else if \<exists>v\<in>set (map (\<lambda>le. eval ops le env) l). unknown v then BN_UNKNOWN
      else BN_FALSE)"
    by (simp only: eval_bool.simps Let_def in_loop_char)
next
  assume compat: "\<forall>v. op_eq ops (eval ops x env) v \<longrightarrow>
           sameType (eval ops x env) v \<or> (numeric (eval ops x env) \<and> numeric v)"
  have r: "BN_TRUE \<noteq> BN_UNKNOWN" by simp
  show "eval_bool ops (NotInExpression x l) env =
          (if unknown (eval ops x env) then BN_UNKNOWN
           else if \<exists>v\<in>set (map (\<lambda>le. eval ops le env) l).
                     \<not> unknown v \<and> op_eq ops (eval ops x env) v
             then BN_FALSE
           else if \<exists>v\<in>set (map (\<lambda>le. eval ops le env) l). unknown v then BN_UNKNOWN
           else if \<exists>v\<in>set (map (\<lambda>le. eval ops le env) l).
                     \<not> sameType (eval ops x env) v \<and> \<not> (numeric (eval ops x env) \<and> numeric v)
             then BN_FALSE
           else BN_TRUE)"
    by (simp only: eval_bool.simps Let_def not_in_loop_char [OF compat r])
qed

theorem in_not_in_eval_witness:
  "eval_bool sample_externals
        (NotInExpression (Literal (V_EXACT 1)) [StringLiteral ''a'', Identifier ''p''])
        (\<lambda>_. V_UNKNOWN) = BN_UNKNOWN
   \<and> eval_bool sample_externals
        (NotInExpression (Literal (V_EXACT 1)) [StringLiteral ''a'', Literal (V_EXACT 2)])
        (\<lambda>_. V_UNKNOWN) = BN_FALSE
   \<and> eval_bool sample_externals
        (InExpression (Literal (V_EXACT 1)) [Identifier ''p'', Literal (V_EXACT 1)])
        (\<lambda>_. V_UNKNOWN) = BN_TRUE
   \<and> eval_bool sample_externals
        (NotInExpression (Literal (V_EXACT 1)) [Identifier ''p'', StringLiteral ''a''])
        (\<lambda>_. V_UNKNOWN) = BN_UNKNOWN"
proof -
  have h: "\<forall>v. op_eq sample_externals (eval sample_externals (Literal (V_EXACT 1)) (\<lambda>_. V_UNKNOWN)) v \<longrightarrow>
        sameType (eval sample_externals (Literal (V_EXACT 1)) (\<lambda>_. V_UNKNOWN)) v
        \<or> (numeric (eval sample_externals (Literal (V_EXACT 1)) (\<lambda>_. V_UNKNOWN)) \<and> numeric v)"
    by (simp add: sample_externals_def)
  show ?thesis
    using h
      in_not_in_eval [of sample_externals "Literal (V_EXACT 1)" "[StringLiteral ''a'', Identifier ''p'']" "\<lambda>_. V_UNKNOWN"]
      in_not_in_eval [of sample_externals "Literal (V_EXACT 1)" "[StringLiteral ''a'', Literal (V_EXACT 2)]" "\<lambda>_. V_UNKNOWN"]
      in_not_in_eval [of sample_externals "Literal (V_EXACT 1)" "[Identifier ''p'', Literal (V_EXACT 1)]" "\<lambda>_. V_UNKNOWN"]
      in_not_in_eval [of sample_externals "Literal (V_EXACT 1)" "[Identifier ''p'', StringLiteral ''a'']" "\<lambda>_. V_UNKNOWN"]
    by (simp add: sample_externals_def)
qed

text \<open>
  The claim C5 as stated fails: it lets an incompatible known \<open>vi\<close> give \<open>False\<close> unless
  a later \<open>vi\<close> is unknown. In \<open>1 NOT IN (p, 'a')\<close> with \<open>p\<close> unknown the string \<open>'a'\<close>
  is known, incompatible with \<open>1\<close> and followed by nothing, yet the result is
  \<open>Unknown\<close>: once the result is \<open>Unknown\<close> the test for an incompatible type is
  skipped. Without the unknown element the result is \<open>False\<close>.
\<close>

theorem in_not_in_eval_counterexample:
  "\<not> unknown (V_STRING ''a'' :: unit Value)
   \<and> \<not> sameType (V_EXACT 1) (V_STRING ''a'' :: unit Value)
   \<and> \<not> (numeric (V_EXACT 1 :: unit Value) \<and> numeric (V_STRING ''a'' :: unit Value))
   \<and> eval_bool sample_externals
        (NotInExpression (Literal (V_EXACT 1)) [Identifier ''p'', StringLiteral ''a''])
        (\<lambda>_. V_UNKNOWN) = BN_UNKNOWN
   \<and> eval_bool sample_externals
        (NotInExpression (Literal (V_EXACT 1)) [StringLiteral ''a''])
        (\<lambda>_. V_UNKNOWN) = BN_FALSE"
  by (simp add: sample_externals_def)


section \<open>LIKE patterns\<close>

lemma like_spec_other: "c \<noteq> e \<Longrightarrow> like_spec e (c # s) = like_char False c @ like_spec e s"
  by (cases s) simp_all

lemma like_spec_escaped:
  "d \<noteq> e \<Longrightarrow> like_spec e (e # d # s) = like_char True d @ like_spec e s"
  by simp

lemma like_spec_twice: "like_spec e (e # e # s) = like_spec e (e # s)"
  by simp

lemma toRegex_loop_spec:
  "e \<noteq> CHR 0x00 \<Longrightarrow>
     toRegex_loop e s doEscape regex = regex @ like_spec e (if doEscape then e # s else s)"
proof (induction s arbitrary: doEscape regex)
  case Nil
  then show ?case by simp
next
  case (Cons i s)
  show ?case
  proof (cases "i = e")
    case True
    then show ?thesis using Cons by simp
  next
    case False
    then show ?thesis using Cons
      by (simp add: like_spec_other like_char_def)
  qed
qed

lemma toRegex_loop_plain:
  "toRegex_loop (CHR 0x00) s False regex = regex @ concat (map (like_char False) s)"
  by (induction s arbitrary: regex) (simp_all add: like_char_def)

text \<open>
  C6, as amended. \<open>toRegex\<close> turns a LIKE pattern into an anchored regular expression:
  an unescaped \<open>%\<close> becomes \<open>.*\<close>, an unescaped \<open>_\<close> becomes \<open>.\<close>, the metacharacters
  backslash, \<open>^\<close>, \<open>$\<close>, \<open>.\<close>, \<open>*\<close> and \<open>[\<close> get a backslash, \<open>]\<close> becomes \<open>[]]\<close>
  and \<open>-\<close> becomes \<open>[-]\<close>; with a one-character escape other than the character \<open>0\<close>
  a \<open>%\<close> or \<open>_\<close> right after the escape character is copied literally and the escape
  character itself gives no output. The LIKE node is built from this regular expression
  at parse time, and for a matcher that agrees with the model of \<open>std::regex_match\<close> the
  node with the pattern \<open>a%\<close> is \<open>True\<close> on \<open>abc\<close> and \<open>False\<close> on \<open>xabc\<close>, and the node
  with the pattern \<open>a\_b\<close> and escape backslash is \<open>True\<close> on \<open>a_b\<close> and \<open>False\<close> on
  \<open>axb\<close>.
\<close>

theorem toRegex_translation:
  "toRegex s [] = Inr (''^'' @ concat (map (like_char False) s) @ ''$'')
   \<and> (e \<noteq> CHR 0x00 \<longrightarrow> toRegex s [e] = Inr (''^'' @ like_spec e s @ ''$''))
   \<and> toRegex ''a%'' [] = Inr ''^a.*$''
   \<and> regex_match_fragment ''abc'' ''^a.*$'' = Some True
   \<and> regex_match_fragment ''xabc'' ''^a.*$'' = Some False
   \<and> toRegex [CHR ''a'', CHR 0x5C, CHR ''_'', CHR ''b''] [CHR 0x5C] = Inr ''^a_b$''
   \<and> regex_match_fragment ''a_b'' ''^a_b$'' = Some True
   \<and> regex_match_fragment ''axb'' ''^a_b$'' = Some False
   \<and> (regex_valid ops ''^a.*$'' \<longrightarrow>
        new_LikeExpression ops x ''a%'' [] = Inr (LikeExpression x ''^a.*$''))
   \<and> (regex_valid ops ''^a_b$'' \<longrightarrow>
        new_LikeExpression ops x [CHR ''a'', CHR 0x5C, CHR ''_'', CHR ''b''] [CHR 0x5C]
          = Inr (LikeExpression x ''^a_b$''))
   \<and> ((\<forall>v re b. regex_match_fragment v re = Some b \<longrightarrow> regex_match ops v re = b) \<longrightarrow>
        (eval ops x env = V_STRING ''abc'' \<longrightarrow>
           eval_bool ops (LikeExpression x ''^a.*$'') env = BN_TRUE)
        \<and> (eval ops x env = V_STRING ''xabc'' \<longrightarrow>
           eval_bool ops (LikeExpression x ''^a.*$'') env = BN_FALSE)
        \<and> (eval ops x env = V_STRING ''a_b'' \<longrightarrow>
           eval_bool ops (LikeExpression x ''^a_b$'') env = BN_TRUE)
        \<and> (eval ops x env = V_STRING ''axb'' \<longrightarrow>
           eval_bool ops (LikeExpression x ''^a_b$'') env = BN_FALSE))"
proof (intro conjI impI)
  show "toRegex s [] = Inr (''^'' @ concat (map (like_char False) s) @ ''$'')"
    by (simp add: toRegex_def toRegex_loop_plain)
  show "toRegex s [e] = Inr (''^'' @ like_spec e s @ ''$'')" if "e \<noteq> CHR 0x00"
    using that by (simp add: toRegex_def toRegex_loop_spec)
  show "toRegex ''a%'' [] = Inr ''^a.*$''"
    by (simp add: toRegex_def)
  show m1: "regex_match_fragment ''abc'' ''^a.*$'' = Some True"
    by (simp add: regex_match_fragment_def syntax_character_def line_terminator_def)
  show m2: "regex_match_fragment ''xabc'' ''^a.*$'' = Some False"
    by (simp add: regex_match_fragment_def syntax_character_def line_terminator_def)
  show "toRegex [CHR ''a'', CHR 0x5C, CHR ''_'', CHR ''b''] [CHR 0x5C] = Inr ''^a_b$''"
    by (simp add: toRegex_def)
  show m3: "regex_match_fragment ''a_b'' ''^a_b$'' = Some True"
    by (simp add: regex_match_fragment_def syntax_character_def line_terminator_def)
  show m4: "regex_match_fragment ''axb'' ''^a_b$'' = Some False"
    by (simp add: regex_match_fragment_def syntax_character_def line_terminator_def)
  show "new_LikeExpression ops x ''a%'' [] = Inr (LikeExpression x ''^a.*$'')"
    if "regex_valid ops ''^a.*$''"
    using that by (simp add: new_LikeExpression_def toRegex_def)
  show "new_LikeExpression ops x [CHR ''a'', CHR 0x5C, CHR ''_'', CHR ''b''] [CHR 0x5C]
          = Inr (LikeExpression x ''^a_b$'')"
    if "regex_valid ops ''^a_b$''"
    using that by (simp add: new_LikeExpression_def toRegex_def)
  assume agree: "\<forall>v re b. regex_match_fragment v re = Some b \<longrightarrow> regex_match ops v re = b"
  have r1: "regex_match ops ''abc'' ''^a.*$''" using agree m1 by blast
  have r2: "\<not> regex_match ops ''xabc'' ''^a.*$''" using agree m2 by blast
  have r3: "regex_match ops ''a_b'' ''^a_b$''" using agree m3 by blast
  have r4: "\<not> regex_match ops ''axb'' ''^a_b$''" using agree m4 by blast
  show "eval_bool ops (LikeExpression x ''^a.*$'') env = BN_TRUE"
    if "eval ops x env = V_STRING ''abc''"
    using that r1 by (simp add: BoolOrNone_of_def)
  show "eval_bool ops (LikeExpression x ''^a.*$'') env = BN_FALSE"
    if "eval ops x env = V_STRING ''xabc''"
    using that r2 by (simp add: BoolOrNone_of_def)
  show "eval_bool ops (LikeExpression x ''^a_b$'') env = BN_TRUE"
    if "eval ops x env = V_STRING ''a_b''"
    using that r3 by (simp add: BoolOrNone_of_def)
  show "eval_bool ops (LikeExpression x ''^a_b$'') env = BN_FALSE"
    if "eval ops x env = V_STRING ''axb''"
    using that r4 by (simp add: BoolOrNone_of_def)
qed

theorem toRegex_translation_witness:
  "toRegex [CHR ''%'', CHR ''!'', CHR ''%'', CHR ''.'', CHR ''!'', CHR ''!'', CHR ''_'', CHR '']''] ''!''
     = Inr ([CHR ''^'', CHR ''.'', CHR ''*'', CHR ''%'', CHR 0x5C, CHR ''.'', CHR ''_'',
             CHR ''['', CHR '']'', CHR '']'', CHR ''$''])
   \<and> new_LikeExpression sample_externals (Identifier ''s'') ''a%'' []
       = Inr (LikeExpression (Identifier ''s'') ''^a.*$'')
   \<and> eval_bool sample_externals (LikeExpression (Identifier ''s'') ''^a.*$'')
         (\<lambda>_. V_STRING ''abc'') = BN_TRUE
   \<and> eval_bool sample_externals (LikeExpression (Identifier ''s'') ''^a.*$'')
         (\<lambda>_. V_STRING ''xabc'') = BN_FALSE"
proof -
  have v: "regex_valid sample_externals ''^a.*$''"
    by (simp add: sample_externals_def syntax_character_def)
  have agree: "\<forall>v re b. regex_match_fragment v re = Some b \<longrightarrow>
      regex_match sample_externals v re = b"
    by (simp add: sample_externals_def)
  have a: "eval sample_externals (Identifier ''s'') (\<lambda>_. V_STRING ''abc'') = V_STRING ''abc''"
    by simp
  have b: "eval sample_externals (Identifier ''s'') (\<lambda>_. V_STRING ''xabc'') = V_STRING ''xabc''"
    by simp
  from toRegex_translation [of "[CHR ''%'', CHR ''!'', CHR ''%'', CHR ''.'', CHR ''!'', CHR ''!'', CHR ''_'', CHR '']'']"
      "CHR ''!''" sample_externals "Identifier ''s''" "\<lambda>_. V_STRING ''abc''"]
    toRegex_translation [of "[]" "CHR ''!''" sample_externals "Identifier ''s''" "\<lambda>_. V_STRING ''xabc''"]
    v agree a b
  show ?thesis by (simp add: like_char_def)
qed

section \<open>Exact numeric literals\<close>

lemma strtoull_digits_all:
  "\<forall>c\<in>set ds. is_digit_of base c \<Longrightarrow>
     strtoull_digits base ds acc = foldl (\<lambda>acc c. acc * base + digit_num c) acc ds"
  by (induction ds arbitrary: acc)
     (auto simp: is_digit_of_def digit_num_def split: option.splits)

lemma is_digit_not_space: "is_digit_of base c \<Longrightarrow> \<not> isspace c"
  by (auto simp: is_digit_of_def isspace_def digit_value_def)

lemma is_digit_not_sign: "is_digit_of base c \<Longrightarrow> c \<noteq> CHR ''-'' \<and> c \<noteq> CHR ''+''"
  by (auto simp: is_digit_of_def digit_value_def)

lemma is_digit_not_prefix:
  "is_digit_of base c \<Longrightarrow> base \<le> 10 \<Longrightarrow>
     c \<noteq> CHR ''b'' \<and> c \<noteq> CHR ''B'' \<and> c \<noteq> CHR ''x'' \<and> c \<noteq> CHR ''X''"
  by (auto simp: is_digit_of_def digit_value_def)

text \<open>\<open>strtoull\<close> on a string of digits of the radix that does not start with \<open>0\<close>.\<close>

lemma strtoull_digit_string:
  assumes ds: "ds \<noteq> []" "\<forall>c\<in>set ds. is_digit_of b c" "hd ds \<noteq> CHR ''0''"
    and base: "base = 0 \<and> b = 10 \<or> base = b \<and> 2 \<le> b \<and> b \<le> 36"
  shows "strtoull ds base =
     (if digits_value b ds > 2 ^ 64 - 1 then (- 1, True)
      else (word_of_nat (digits_value b ds), False))"
proof -
  from ds obtain c cs where cs: "ds = c # cs" by (cases ds) auto
  with ds have c: "is_digit_of b c" "c \<noteq> CHR ''0''" by auto
  have drop: "dropWhile isspace (c # cs) = c # cs"
    using c(1) is_digit_not_space by simp
  have sign: "c \<noteq> CHR ''-''" "c \<noteq> CHR ''+''"
    using c(1) is_digit_not_sign by auto
  have n: "strtoull_digits b (c # cs) 0 = digits_value b (c # cs)"
    using ds(2) unfolding cs digits_value_def by (rule strtoull_digits_all)
  have b: "(if base = 0 then 10 else base) = b"
    using base by auto
  have ok: "\<not> (base = 1 \<or> base > 36)"
    using base by auto
  show ?thesis
    unfolding cs strtoull_def Let_def drop
    using sign c(2) ok
    by (simp only: n b list.sel nth_Cons_0 if_False if_True simp_thms list.simps)
qed

text \<open>\<open>strtoull\<close> in base 8 on a string of octal digits that starts with \<open>0\<close>.\<close>

lemma strtoull_octal_string:
  assumes "\<forall>c\<in>set ds. is_digit_of 8 c"
  shows "strtoull (CHR ''0'' # ds) 8 =
     (if digits_value 8 ds > 2 ^ 64 - 1 then (- 1, True)
      else (word_of_nat (digits_value 8 ds), False))"
proof -
  have z: "is_digit_of 8 CHR ''0''" "digit_num CHR ''0'' = 0"
    by (simp_all add: is_digit_of_def digit_value_def digit_num_def)
  have all: "\<forall>c\<in>set (CHR ''0'' # ds). is_digit_of 8 c"
    using assms z by simp
  have "strtoull_digits 8 (CHR ''0'' # ds) 0 = digits_value 8 ds"
    unfolding strtoull_digits_all [OF all] by (simp add: digits_value_def z)
  then show ?thesis
    by (simp add: strtoull_def isspace_def Let_def del: strtoull_digits.simps)
qed

lemma word64_le_max: "n < 2 ^ 64 \<Longrightarrow> (word_of_nat n :: 64 word) \<le> INT64_MAX \<longleftrightarrow> n \<le> 2 ^ 63 - 1"
  by (simp add: word_le_nat_alt INT64_MAX_def unat_of_nat)

lemma word64_eq_min: "n < 2 ^ 64 \<Longrightarrow> (word_of_nat n :: 64 word) = INT64_MAX + 1 \<longleftrightarrow> n = 2 ^ 63"
  by (simp add: word_unat_eq_iff INT64_MAX_def unat_of_nat)

section \<open>Range and radix of exact numeric literals\<close>

lemma parse_decimal:
  fixes token :: Token
  assumes s: "s = filter (\<lambda>c. c \<noteq> CHR ''_'') (val token)"
    and ds: "s \<noteq> []" "\<forall>c\<in>set s. is_digit_of 10 c" "hd s \<noteq> CHR ''0''"
  shows "parseExactNumeric token negate err =
     (if digits_value 10 s \<le> 2 ^ 63 - 1
        then (Some (Literal (V_EXACT (if negate then - word_of_nat (digits_value 10 s)
                                      else word_of_nat (digits_value 10 s)))), err)
      else if negate \<and> digits_value 10 s = 2 ^ 63 then (Some (Literal (V_EXACT INT64_MIN)), err)
      else (None, ''integer literal too big''))"
proof -
  from ds obtain c cs where cs: "s = c # cs" by (cases s) auto
  have c0: "string_at s 0 = c" by (simp add: string_at_def cs)
  have "string_at s 1 = CHR 0x00 \<or> is_digit_of 10 (string_at s 1)"
    using ds(2) by (cases cs) (auto simp: string_at_def cs)
  then have c1: "string_at s 1 \<noteq> CHR ''b''" "string_at s 1 \<noteq> CHR ''B''"
    "string_at s 1 \<noteq> CHR ''x''" "string_at s 1 \<noteq> CHR ''X''"
    using is_digit_not_prefix [of 10 "string_at s 1"] by auto
  have st: "strtoull s 0 =
     (if digits_value 10 s > 2 ^ 64 - 1 then (- 1, True)
      else (word_of_nat (digits_value 10 s), False))"
    using ds by (intro strtoull_digit_string) auto
  have c: "c \<noteq> CHR ''0''" using ds(3) cs by simp
  show ?thesis
  proof (cases "digits_value 10 s > 2 ^ 64 - 1")
    case True
    then show ?thesis
      unfolding parseExactNumeric_def s [symmetric] Let_def
      using c1 c
      by (simp add: c0 st INT64_MAX_def)
  next
    case False
    then have lt: "digits_value 10 s < 2 ^ 64" by simp
    show ?thesis
      unfolding parseExactNumeric_def s [symmetric] Let_def
      using c1 c False
      by (simp add: c0 st word64_le_max [OF lt] word64_eq_min [OF lt])
  qed
qed


lemma parse_prefixed:
  fixes token :: Token
  assumes s: "filter (\<lambda>c. c \<noteq> CHR ''_'') (val token) = z # x # ds"
    and x: "(x = CHR ''b'' \<or> x = CHR ''B'') \<and> b = 2 \<or> (x = CHR ''x'' \<or> x = CHR ''X'') \<and> b = 16"
    and ds: "ds \<noteq> []" "\<forall>c\<in>set ds. is_digit_of b c" "hd ds \<noteq> CHR ''0''"
  shows "parseExactNumeric token negate err =
     (if digits_value b ds \<le> 2 ^ 64 - 1
        then (Some (Literal (V_EXACT (if negate then - word_of_nat (digits_value b ds)
                                      else word_of_nat (digits_value b ds)))), err)
      else (None, ''integer literal too big''))"
proof -
  from ds obtain c cs where cs: "ds = c # cs" by (cases ds) auto
  have c: "c \<noteq> CHR ''0''" using ds(3) cs by simp
  have c1: "string_at (z # x # ds) 1 = x" by (simp add: string_at_def)
  have c0: "string_at ds 0 = c" by (simp add: string_at_def cs)
  have st: "strtoull ds b =
     (if digits_value b ds > 2 ^ 64 - 1 then (- 1, True)
      else (word_of_nat (digits_value b ds), False))"
    using ds x by (intro strtoull_digit_string) auto
  have d: "drop 2 (z # x # ds) = ds" by simp
  have base0: "(if x = CHR ''b'' \<or> x = CHR ''B'' then 2
                else if x = CHR ''x'' \<or> x = CHR ''X'' then 16 else 0) = b"
    using x by auto
  have s': "(if x = CHR ''b'' \<or> x = CHR ''B'' then ds
             else if x = CHR ''x'' \<or> x = CHR ''X'' then ds else z # x # ds) = ds"
    using x by auto
  have b0: "b \<noteq> 0" using x by auto
  show ?thesis
    unfolding parseExactNumeric_def s Let_def c1 d base0 s' c0
    using c b0
    by (simp add: st INT64_MAX_def)
qed


lemma parse_octal:
  fixes token :: Token
  assumes s: "filter (\<lambda>c. c \<noteq> CHR ''_'') (val token) = CHR ''0'' # ds"
    and ds: "\<forall>c\<in>set ds. is_digit_of 8 c"
  shows "parseExactNumeric token negate err =
     (if digits_value 8 ds \<le> 2 ^ 64 - 1
        then (Some (Literal (V_EXACT (if negate then - word_of_nat (digits_value 8 ds)
                                      else word_of_nat (digits_value 8 ds)))), err)
      else (None, ''integer literal too big''))"
proof -
  have "string_at (CHR ''0'' # ds) 1 = CHR 0x00 \<or> is_digit_of 8 (string_at (CHR ''0'' # ds) 1)"
    using ds by (cases ds) (auto simp: string_at_def)
  then have c1: "string_at (CHR ''0'' # ds) 1 \<noteq> CHR ''b''" "string_at (CHR ''0'' # ds) 1 \<noteq> CHR ''B''"
    "string_at (CHR ''0'' # ds) 1 \<noteq> CHR ''x''" "string_at (CHR ''0'' # ds) 1 \<noteq> CHR ''X''"
    using is_digit_not_prefix [of 8 "string_at (CHR ''0'' # ds) 1"] by auto
  have c0: "string_at (CHR ''0'' # ds) 0 = CHR ''0''" by (simp add: string_at_def)
  show ?thesis
    unfolding parseExactNumeric_def s Let_def
    using c1
    by (auto simp: c0 strtoull_octal_string [OF ds] INT64_MAX_def)
qed

text \<open>
  C2, as amended. For an exact numeric token whose text, without the separators \<open>_\<close>,
  is made of digits of its radix: a plain decimal literal fails with
  "integer literal too big" exactly when its value is over \<open>INT64_MAX\<close>, but for the
  value \<open>INT64_MAX + 1\<close> under the fused minus, which gives \<open>INT64_MIN\<close>; a literal
  with the prefix \<open>0x\<close> or \<open>0b\<close> (whose first digit is not \<open>0\<close>) or with a leading
  \<open>0\<close> (octal) fails exactly when its value is over \<open>2^64 - 1\<close>, and a value up to
  there is accepted and read as a signed 64-bit integer. In every other case the literal
  compiles to its value, negated under the fused minus. The fused minus on a literal
  with a radix and the value \<open>2^63\<close>, where the source negates \<open>INT64_MIN\<close>, is left
  out.
\<close>

theorem exact_numeric_range:
  fixes token :: Token
  shows "s = filter (\<lambda>c. c \<noteq> CHR ''_'') (val token) \<Longrightarrow>
    (s \<noteq> [] \<and> (\<forall>c\<in>set s. is_digit_of 10 c) \<and> hd s \<noteq> CHR ''0'' \<longrightarrow>
       parseExactNumeric token negate err =
         (if digits_value 10 s \<le> 2 ^ 63 - 1
            then (Some (Literal (V_EXACT (if negate then - word_of_nat (digits_value 10 s)
                                          else word_of_nat (digits_value 10 s)))), err)
          else if negate \<and> digits_value 10 s = 2 ^ 63
            then (Some (Literal (V_EXACT INT64_MIN)), err)
          else (None, ''integer literal too big'')))
    \<and> (\<forall>x ds. s = CHR ''0'' # x # ds \<and> (x = CHR ''x'' \<or> x = CHR ''X'') \<and> ds \<noteq> []
           \<and> (\<forall>c\<in>set ds. is_digit_of 16 c) \<and> hd ds \<noteq> CHR ''0''
           \<and> \<not> (negate \<and> digits_value 16 ds = 2 ^ 63) \<longrightarrow>
       parseExactNumeric token negate err =
         (if digits_value 16 ds \<le> 2 ^ 64 - 1
            then (Some (Literal (V_EXACT (if negate then - word_of_nat (digits_value 16 ds)
                                          else word_of_nat (digits_value 16 ds)))), err)
          else (None, ''integer literal too big'')))
    \<and> (\<forall>x ds. s = CHR ''0'' # x # ds \<and> (x = CHR ''b'' \<or> x = CHR ''B'') \<and> ds \<noteq> []
           \<and> (\<forall>c\<in>set ds. is_digit_of 2 c) \<and> hd ds \<noteq> CHR ''0''
           \<and> \<not> (negate \<and> digits_value 2 ds = 2 ^ 63) \<longrightarrow>
       parseExactNumeric token negate err =
         (if digits_value 2 ds \<le> 2 ^ 64 - 1
            then (Some (Literal (V_EXACT (if negate then - word_of_nat (digits_value 2 ds)
                                          else word_of_nat (digits_value 2 ds)))), err)
          else (None, ''integer literal too big'')))
    \<and> (\<forall>ds. s = CHR ''0'' # ds \<and> (\<forall>c\<in>set ds. is_digit_of 8 c)
           \<and> \<not> (negate \<and> digits_value 8 ds = 2 ^ 63) \<longrightarrow>
       parseExactNumeric token negate err =
         (if digits_value 8 ds \<le> 2 ^ 64 - 1
            then (Some (Literal (V_EXACT (if negate then - word_of_nat (digits_value 8 ds)
                                          else word_of_nat (digits_value 8 ds)))), err)
          else (None, ''integer literal too big'')))"
proof (intro conjI allI impI, goal_cases)
  case 1
  then have "s = filter (\<lambda>c. c \<noteq> CHR ''_'') (val token)" "s \<noteq> []"
    "\<forall>c\<in>set s. is_digit_of 10 c" "hd s \<noteq> CHR ''0''"
    by simp_all
  then show ?case by (rule parse_decimal)
next
  case (2 x ds)
  then have "filter (\<lambda>c. c \<noteq> CHR ''_'') (val token) = CHR ''0'' # x # ds"
    "(x = CHR ''b'' \<or> x = CHR ''B'') \<and> 16 = (2::nat) \<or> (x = CHR ''x'' \<or> x = CHR ''X'') \<and> 16 = (16::nat)"
    "ds \<noteq> []" "\<forall>c\<in>set ds. is_digit_of 16 c" "hd ds \<noteq> CHR ''0''"
    by simp_all
  then show ?case by (rule parse_prefixed)
next
  case (3 x ds)
  then have "filter (\<lambda>c. c \<noteq> CHR ''_'') (val token) = CHR ''0'' # x # ds"
    "(x = CHR ''b'' \<or> x = CHR ''B'') \<and> 2 = (2::nat) \<or> (x = CHR ''x'' \<or> x = CHR ''X'') \<and> 2 = (16::nat)"
    "ds \<noteq> []" "\<forall>c\<in>set ds. is_digit_of 2 c" "hd ds \<noteq> CHR ''0''"
    by simp_all
  then show ?case by (rule parse_prefixed)
next
  case (4 ds)
  then have "filter (\<lambda>c. c \<noteq> CHR ''_'') (val token) = CHR ''0'' # ds"
    "\<forall>c\<in>set ds. is_digit_of 8 c"
    by simp_all
  then show ?case by (rule parse_octal)
qed

theorem exact_numeric_range_witness:
  "parseExactNumeric \<lparr>type = T_NUMERIC_EXACT, val = ''9_223_372_036_854_775_807''\<rparr> False []
      = (Some (Literal (V_EXACT 0x7FFFFFFFFFFFFFFF :: unit Value)), [])
   \<and> parseExactNumeric \<lparr>type = T_NUMERIC_EXACT, val = ''99999999999999999999''\<rparr> False []
      = (None :: unit ValueExpression option, ''integer literal too big'')
   \<and> parseExactNumeric \<lparr>type = T_NUMERIC_EXACT, val = ''0xFFFFFFFFFFFFFFFF''\<rparr> False []
      = (Some (Literal (V_EXACT 0xFFFFFFFFFFFFFFFF :: unit Value)), [])
   \<and> parseExactNumeric \<lparr>type = T_NUMERIC_EXACT, val = ''0x1FFFFFFFFFFFFFFFF''\<rparr> False []
      = (None :: unit ValueExpression option, ''integer literal too big'')
   \<and> parseExactNumeric \<lparr>type = T_NUMERIC_EXACT, val = ''0b101''\<rparr> False []
      = (Some (Literal (V_EXACT 5 :: unit Value)), [])
   \<and> parseExactNumeric \<lparr>type = T_NUMERIC_EXACT, val = ''017''\<rparr> False []
      = (Some (Literal (V_EXACT 15 :: unit Value)), [])"
proof (intro conjI)
  show "parseExactNumeric \<lparr>type = T_NUMERIC_EXACT, val = ''9_223_372_036_854_775_807''\<rparr> False []
      = (Some (Literal (V_EXACT 0x7FFFFFFFFFFFFFFF :: unit Value)), [])"
    using exact_numeric_range [of "''9223372036854775807''"
        "\<lparr>type = T_NUMERIC_EXACT, val = ''9_223_372_036_854_775_807''\<rparr>" False "[]"]
    by (simp add: is_digit_of_def digit_value_def digits_value_def digit_num_def)
  show "parseExactNumeric \<lparr>type = T_NUMERIC_EXACT, val = ''99999999999999999999''\<rparr> False []
      = (None :: unit ValueExpression option, ''integer literal too big'')"
    using exact_numeric_range [of "''99999999999999999999''"
        "\<lparr>type = T_NUMERIC_EXACT, val = ''99999999999999999999''\<rparr>" False "[]"]
    by (simp add: is_digit_of_def digit_value_def digits_value_def digit_num_def)
  show "parseExactNumeric \<lparr>type = T_NUMERIC_EXACT, val = ''0xFFFFFFFFFFFFFFFF''\<rparr> False []
      = (Some (Literal (V_EXACT 0xFFFFFFFFFFFFFFFF :: unit Value)), [])"
    using exact_numeric_range [of "''0xFFFFFFFFFFFFFFFF''"
        "\<lparr>type = T_NUMERIC_EXACT, val = ''0xFFFFFFFFFFFFFFFF''\<rparr>" False "[]"]
    by (simp add: is_digit_of_def digit_value_def digits_value_def digit_num_def)
  show "parseExactNumeric \<lparr>type = T_NUMERIC_EXACT, val = ''0x1FFFFFFFFFFFFFFFF''\<rparr> False []
      = (None :: unit ValueExpression option, ''integer literal too big'')"
    using exact_numeric_range [of "''0x1FFFFFFFFFFFFFFFF''"
        "\<lparr>type = T_NUMERIC_EXACT, val = ''0x1FFFFFFFFFFFFFFFF''\<rparr>" False "[]"]
    by (simp add: is_digit_of_def digit_value_def digits_value_def digit_num_def)
  show "parseExactNumeric \<lparr>type = T_NUMERIC_EXACT, val = ''0b101''\<rparr> False []
      = (Some (Literal (V_EXACT 5 :: unit Value)), [])"
    using exact_numeric_range [of "''0b101''"
        "\<lparr>type = T_NUMERIC_EXACT, val = ''0b101''\<rparr>" False "[]"]
    by (simp add: is_digit_of_def digit_value_def digits_value_def digit_num_def)
  show "parseExactNumeric \<lparr>type = T_NUMERIC_EXACT, val = ''017''\<rparr> False []
      = (Some (Literal (V_EXACT 15 :: unit Value)), [])"
    using exact_numeric_range [of "''017''"
        "\<lparr>type = T_NUMERIC_EXACT, val = ''017''\<rparr>" False "[]"]
    by (simp add: is_digit_of_def digit_value_def digits_value_def digit_num_def)
qed

text \<open>
  The claim C2 as stated fails: the hexadecimal literal \<open>0xFFFFFFFFFFFFFFFF\<close>, whose
  value is over \<open>INT64_MAX\<close>, compiles (to \<open>-1\<close>), since the range check is skipped
  for a literal with a radix; and \<open>10L\<close>, whose suffix is no decimal digit, compiles to
  \<open>10\<close>.
\<close>

theorem exact_numeric_range_counterexample:
  "INT64_MAX < (0xFFFFFFFFFFFFFFFF :: 64 word)
   \<and> parseExactNumeric \<lparr>type = T_NUMERIC_EXACT, val = ''0xFFFFFFFFFFFFFFFF''\<rparr> False []
      = (Some (Literal (V_EXACT 0xFFFFFFFFFFFFFFFF :: unit Value)), [])
   \<and> sint (0xFFFFFFFFFFFFFFFF :: 64 word) = - 1
   \<and> \<not> is_digit_of 10 CHR ''L''
   \<and> parseExactNumeric \<lparr>type = T_NUMERIC_EXACT, val = ''10L''\<rparr> False []
      = (Some (Literal (V_EXACT 10 :: unit Value)), [])"
  by (simp add: parseExactNumeric_def string_at_def strtoull_def digit_value_def isspace_def
      INT64_MAX_def is_digit_of_def)

text \<open>
  C3. The claim says that every literal with a radix prefix has its value in that radix.
  In the code the test for a leading \<open>0\<close> comes after the prefix is cut off and is not
  an \<open>else\<close> branch, so that a hexadecimal or binary literal whose first digit is \<open>0\<close>
  is read in base 8: \<open>0x0F\<close> compiles to \<open>0\<close> (not 15) and \<open>0b0101\<close> to \<open>65\<close> (not
  5). The examples \<open>0x1F\<close>, \<open>0b101\<close> and \<open>1_000\<close> have the values 31, 5 and 1000.
\<close>

theorem prefixed_literal_leading_zero:
  "parseExactNumeric \<lparr>type = T_NUMERIC_EXACT, val = ''0x0F''\<rparr> False []
      = (Some (Literal (V_EXACT 0 :: unit Value)), [])
   \<and> parseExactNumeric \<lparr>type = T_NUMERIC_EXACT, val = ''0b0101''\<rparr> False []
      = (Some (Literal (V_EXACT 65 :: unit Value)), [])
   \<and> parseExactNumeric \<lparr>type = T_NUMERIC_EXACT, val = ''0x1F''\<rparr> False []
      = (Some (Literal (V_EXACT 31 :: unit Value)), [])
   \<and> parseExactNumeric \<lparr>type = T_NUMERIC_EXACT, val = ''0b101''\<rparr> False []
      = (Some (Literal (V_EXACT 5 :: unit Value)), [])
   \<and> parseExactNumeric \<lparr>type = T_NUMERIC_EXACT, val = ''1_000''\<rparr> False []
      = (Some (Literal (V_EXACT 1000 :: unit Value)), [])"
  by (simp add: parseExactNumeric_def string_at_def strtoull_def digit_value_def isspace_def
      INT64_MAX_def)

theorem prefixed_literal_leading_zero_witness:
  "parseExactNumeric \<lparr>type = T_NUMERIC_EXACT, val = ''0x0F''\<rparr> False []
      \<noteq> (Some (Literal (V_EXACT 15 :: unit Value)), [])
   \<and> parseExactNumeric \<lparr>type = T_NUMERIC_EXACT, val = ''0b0101''\<rparr> False []
      \<noteq> (Some (Literal (V_EXACT 5 :: unit Value)), [])"
  using prefixed_literal_leading_zero by simp

section \<open>Compilation\<close>

lemmas parser_defs = make_selector_def selectorExpression_def nextTok_def nextToken_def
  returnTok_def returnTokens_def set_error_def bind_def bind_ptr_def primaryExpression_def
  make_unique_ConcreteExpression_def EOS_token_def throwParseError_def comparison_op_of_def
  add_op_of_def mult_op_of_def wrap_negated_def new_LikeExpression_def

lemma fuel_6: "6 \<le> n \<Longrightarrow> \<exists>m. n = Suc (Suc (Suc (Suc (Suc (Suc (m))))))"
  by (rule exI [of _ "n - 6"]) simp

lemma fuel_12: "12 \<le> n \<Longrightarrow> \<exists>m. n = Suc (Suc (Suc (Suc (Suc (Suc (Suc (Suc (Suc (Suc (Suc (Suc (m))))))))))))"
  by (rule exI [of _ "n - 12"]) simp

text \<open>
  \<open>make_selector\<close> never throws the error of the parser: the pointer that it tests is the
  one that \<open>std::make_unique\<close> returned. When the parser returns the null pointer and
  the tokens are used up, the caller gets an expression whose root is the null pointer.
\<close>

lemma make_selector_null:
  assumes "selectorExpression ext n \<lparr>tokeniser = \<lparr>tokens = ts, tokp = 0\<rparr>, error = []\<rparr>
             = Return None st"
    and "type (fst (nextTok st)) = T_EOS"
  shows "make_selector ext n ts = Return (ConcreteExpression None) (snd (nextTok st))"
  using assms
  by (simp add: make_selector_def bind_def make_unique_ConcreteExpression_def split_def)

text \<open>
  C1. The claim says that every parse failure, also at the end of the input, raises a
  compile error and that no partial expression is returned. For the selector \<open>A IS\<close>
  the parser fails at the end of the input ("expected NULL or NOT NULL after IS"), and
  \<open>make_selector\<close> returns an expression with a null root and raises nothing; the
  same holds for \<open>(\<close>. A failure before the end of the input (\<open>A IS B C\<close>) does raise an
  error, with the reason "extra input".
\<close>

theorem make_selector_failure_at_end:
  "12 \<le> n \<Longrightarrow>
     make_selector ext n [\<lparr>type = T_IDENTIFIER, val = ''A''\<rparr>, \<lparr>type = T_IS, val = ''IS''\<rparr>]
       = Return (ConcreteExpression None)
           \<lparr>tokeniser = \<lparr>tokens = [\<lparr>type = T_IDENTIFIER, val = ''A''\<rparr>, \<lparr>type = T_IS, val = ''IS''\<rparr>], tokp = 3\<rparr>,
            error = ''expected NULL or NOT NULL after IS''\<rparr>
     \<and> make_selector ext n [\<lparr>type = T_LPAREN, val = ''(''\<rparr>]
       = Return (ConcreteExpression None)
           \<lparr>tokeniser = \<lparr>tokens = [\<lparr>type = T_LPAREN, val = ''(''\<rparr>], tokp = 2\<rparr>,
            error = ''expected literal or identifier''\<rparr>
     \<and> make_selector ext n [\<lparr>type = T_IDENTIFIER, val = ''A''\<rparr>, \<lparr>type = T_IS, val = ''IS''\<rparr>, \<lparr>type = T_IDENTIFIER, val = ''B''\<rparr>, \<lparr>type = T_IDENTIFIER, val = ''C''\<rparr>]
       = Throw (range_error (''Illegal selector: '' @ [CHR 0x27] @ ''C'' @ [CHR 0x27]
                             @ '': extra input''))"
proof -
  assume "12 \<le> n"
  then obtain m where n: "n = Suc (Suc (Suc (Suc (Suc (Suc (Suc (Suc (Suc (Suc (Suc (Suc (m))))))))))))"
    using fuel_12 by blast
  show ?thesis
    unfolding n by (simp add: parser_defs)
qed

theorem make_selector_failure_at_end_witness:
  "make_selector sample_externals 12 [\<lparr>type = T_IDENTIFIER, val = ''A''\<rparr>, \<lparr>type = T_IS, val = ''IS''\<rparr>]
       = Return (ConcreteExpression None)
           \<lparr>tokeniser = \<lparr>tokens = [\<lparr>type = T_IDENTIFIER, val = ''A''\<rparr>, \<lparr>type = T_IS, val = ''IS''\<rparr>], tokp = 3\<rparr>,
            error = ''expected NULL or NOT NULL after IS''\<rparr>"
  using make_selector_failure_at_end [of 12 sample_externals] by simp

section \<open>The ESCAPE argument of LIKE\<close>

text \<open>
  The checks of \<open>specialComparisons\<close> on the ESCAPE argument, for a state whose next
  tokens are LIKE, a string, ESCAPE and a string \<open>e\<close>: a text longer than one
  character and the texts \<open>%\<close> and \<open>_\<close> are rejected with an error that carries the
  text of the token; every other text, the empty one too, goes on to the constructor of
  the LIKE node.
\<close>

lemma escape_argument_check:
  assumes k: "tokp (tokeniser st) = k" "Suc (Suc (Suc k)) < length (tokens (tokeniser st))"
    and ty: "type (tokens (tokeniser st) ! k) = T_LIKE"
      "type (tokens (tokeniser st) ! Suc k) = T_STRING"
      "type (tokens (tokeniser st) ! Suc (Suc k)) = T_ESCAPE"
      "type (tokens (tokeniser st) ! Suc (Suc (Suc k))) = T_STRING"
    and p: "p = val (tokens (tokeniser st) ! Suc k)"
    and e: "e = val (tokens (tokeniser st) ! Suc (Suc (Suc k)))"
  shows "specialComparisons ext (Suc n) e1 negated st =
     (if length e > 1 then
        Throw (range_error (''Illegal selector: '' @ [CHR 0x27] @ e @ [CHR 0x27]
                 @ '': single character string required after ESCAPE''))
      else if e = ''%'' \<or> e = ''_'' then
        Throw (range_error (''Illegal selector: '' @ [CHR 0x27] @ e @ [CHR 0x27] @ '': ''
                 @ [CHR 0x27] @ ''%'' @ [CHR 0x27] @ '' and '' @ [CHR 0x27] @ ''_''
                 @ [CHR 0x27] @ '' are not allowed as ESCAPE characters''))
      else
        (case new_LikeExpression ext e1 p e of
           Inl x \<Rightarrow> Throw x
         | Inr l \<Rightarrow> Return (Some (wrap_negated negated l))
                     (st\<lparr>tokeniser := tokeniser st\<lparr>tokp := Suc (Suc (Suc (Suc k)))\<rparr>\<rparr>)))"
proof -
  let ?ts = "tokens (tokeniser st)"
  have st0: "nextTok st = (?ts ! k, st\<lparr>tokeniser := tokeniser st\<lparr>tokp := Suc k\<rparr>\<rparr>)"
    using k by (simp add: nextTok_def nextToken_def)
  have st1: "nextTok (st\<lparr>tokeniser := tokeniser st\<lparr>tokp := Suc k\<rparr>\<rparr>)
      = (?ts ! Suc k, st\<lparr>tokeniser := tokeniser st\<lparr>tokp := Suc (Suc k)\<rparr>\<rparr>)"
    using k by (simp add: nextTok_def nextToken_def)
  have st2: "nextTok (st\<lparr>tokeniser := tokeniser st\<lparr>tokp := Suc (Suc k)\<rparr>\<rparr>)
      = (?ts ! Suc (Suc k), st\<lparr>tokeniser := tokeniser st\<lparr>tokp := Suc (Suc (Suc k))\<rparr>\<rparr>)"
    using k by (simp add: nextTok_def nextToken_def)
  have st3: "nextTok (st\<lparr>tokeniser := tokeniser st\<lparr>tokp := Suc (Suc (Suc k))\<rparr>\<rparr>)
      = (?ts ! Suc (Suc (Suc k)),
         st\<lparr>tokeniser := tokeniser st\<lparr>tokp := Suc (Suc (Suc (Suc k)))\<rparr>\<rparr>)"
    using k by (simp add: nextTok_def nextToken_def)
  have thr: "throwParseError (tokeniser st\<lparr>tokp := Suc (Suc (Suc (Suc k)))\<rparr>) msg
      = range_error (''Illegal selector: '' @ [CHR 0x27] @ e @ [CHR 0x27] @ '': '' @ msg)" for msg
    using k by (simp add: throwParseError_def returnTokens_def nextToken_def e)
  show ?thesis
    unfolding specialComparisons.simps st0 Let_def prod.case st1 st2 st3
    using ty
    by (simp add: thr p [symmetric] e [symmetric])
qed

text \<open>
  C8. The claim says that an ESCAPE argument whose length is not exactly 1 is rejected.
  The code tests \<open>e.val.size() > 1\<close> only, so that the empty argument of
  \<open>A LIKE 'x' ESCAPE ''\<close> is accepted and compiles like \<open>A LIKE 'x'\<close>, although the
  error it would raise reads "single character string required after ESCAPE". Longer
  arguments and \<open>%\<close> are rejected with an error that carries the text of the token, and
  another single character is accepted.
\<close>

theorem escape_empty_accepted:
  "6 \<le> n \<Longrightarrow> regex_valid ext ''^x$'' \<Longrightarrow>
     make_selector ext n [\<lparr>type = T_IDENTIFIER, val = ''A''\<rparr>, \<lparr>type = T_LIKE, val = ''LIKE''\<rparr>, \<lparr>type = T_STRING, val = ''x''\<rparr>, \<lparr>type = T_ESCAPE, val = ''ESCAPE''\<rparr>, \<lparr>type = T_STRING, val = []\<rparr>]
       = Return (ConcreteExpression (Some (LikeExpression (Identifier ''A'') ''^x$'')))
           \<lparr>tokeniser = \<lparr>tokens = [\<lparr>type = T_IDENTIFIER, val = ''A''\<rparr>, \<lparr>type = T_LIKE, val = ''LIKE''\<rparr>, \<lparr>type = T_STRING, val = ''x''\<rparr>, \<lparr>type = T_ESCAPE, val = ''ESCAPE''\<rparr>, \<lparr>type = T_STRING, val = []\<rparr>], tokp = 6\<rparr>, error = []\<rparr>
     \<and> make_selector ext n [\<lparr>type = T_IDENTIFIER, val = ''A''\<rparr>, \<lparr>type = T_LIKE, val = ''LIKE''\<rparr>, \<lparr>type = T_STRING, val = ''x''\<rparr>, \<lparr>type = T_ESCAPE, val = ''ESCAPE''\<rparr>, \<lparr>type = T_STRING, val = ''ab''\<rparr>]
       = Throw (range_error (''Illegal selector: '' @ [CHR 0x27] @ ''ab'' @ [CHR 0x27]
                  @ '': single character string required after ESCAPE''))
     \<and> make_selector ext n [\<lparr>type = T_IDENTIFIER, val = ''A''\<rparr>, \<lparr>type = T_LIKE, val = ''LIKE''\<rparr>, \<lparr>type = T_STRING, val = ''x''\<rparr>, \<lparr>type = T_ESCAPE, val = ''ESCAPE''\<rparr>, \<lparr>type = T_STRING, val = ''%''\<rparr>]
       = Throw (range_error (''Illegal selector: '' @ [CHR 0x27] @ ''%'' @ [CHR 0x27] @ '': ''
                  @ [CHR 0x27] @ ''%'' @ [CHR 0x27] @ '' and '' @ [CHR 0x27] @ ''_''
                  @ [CHR 0x27] @ '' are not allowed as ESCAPE characters''))
     \<and> make_selector ext n [\<lparr>type = T_IDENTIFIER, val = ''A''\<rparr>, \<lparr>type = T_LIKE, val = ''LIKE''\<rparr>, \<lparr>type = T_STRING, val = ''x''\<rparr>, \<lparr>type = T_ESCAPE, val = ''ESCAPE''\<rparr>, \<lparr>type = T_STRING, val = ''!''\<rparr>]
       = Return (ConcreteExpression (Some (LikeExpression (Identifier ''A'') ''^x$'')))
           \<lparr>tokeniser = \<lparr>tokens = [\<lparr>type = T_IDENTIFIER, val = ''A''\<rparr>, \<lparr>type = T_LIKE, val = ''LIKE''\<rparr>, \<lparr>type = T_STRING, val = ''x''\<rparr>, \<lparr>type = T_ESCAPE, val = ''ESCAPE''\<rparr>, \<lparr>type = T_STRING, val = ''!''\<rparr>], tokp = 6\<rparr>, error = []\<rparr>"
proof -
  assume "6 \<le> n" and re: "regex_valid ext ''^x$''"
  then obtain m where n: "n = Suc (Suc (Suc (Suc (Suc (Suc (m))))))"
    using fuel_6 by blast
  show ?thesis
    unfolding n using re by (simp add: parser_defs toRegex_def)
qed

theorem escape_empty_accepted_witness:
  "make_selector sample_externals 6 [\<lparr>type = T_IDENTIFIER, val = ''A''\<rparr>, \<lparr>type = T_LIKE, val = ''LIKE''\<rparr>, \<lparr>type = T_STRING, val = ''x''\<rparr>, \<lparr>type = T_ESCAPE, val = ''ESCAPE''\<rparr>, \<lparr>type = T_STRING, val = []\<rparr>]
       = Return (ConcreteExpression (Some (LikeExpression (Identifier ''A'') ''^x$'')))
           \<lparr>tokeniser = \<lparr>tokens = [\<lparr>type = T_IDENTIFIER, val = ''A''\<rparr>, \<lparr>type = T_LIKE, val = ''LIKE''\<rparr>, \<lparr>type = T_STRING, val = ''x''\<rparr>, \<lparr>type = T_ESCAPE, val = ''ESCAPE''\<rparr>, \<lparr>type = T_STRING, val = []\<rparr>], tokp = 6\<rparr>, error = []\<rparr>"
proof -
  have re: "regex_valid sample_externals ''^x$''"
    by (simp add: sample_externals_def syntax_character_def)
  show ?thesis
    using escape_empty_accepted [of 6 sample_externals, OF _ re] by simp
qed

section \<open>A NUL escape character\<close>

lemma nul_escape_compiles:
  "6 \<le> n \<Longrightarrow> regex_valid ext [CHR ''^'', CHR 0x00, CHR ''.'', CHR ''*'', CHR ''$''] \<Longrightarrow>
     make_selector ext n [\<lparr>type = T_IDENTIFIER, val = ''A''\<rparr>, \<lparr>type = T_LIKE, val = ''LIKE''\<rparr>, \<lparr>type = T_STRING, val = [CHR 0x00, CHR ''%'']\<rparr>, \<lparr>type = T_ESCAPE, val = ''ESCAPE''\<rparr>, \<lparr>type = T_STRING, val = [CHR 0x00]\<rparr>]
       = Return (ConcreteExpression (Some (LikeExpression (Identifier ''A'')
                   [CHR ''^'', CHR 0x00, CHR ''.'', CHR ''*'', CHR ''$''])))
           \<lparr>tokeniser = \<lparr>tokens = [\<lparr>type = T_IDENTIFIER, val = ''A''\<rparr>, \<lparr>type = T_LIKE, val = ''LIKE''\<rparr>, \<lparr>type = T_STRING, val = [CHR 0x00, CHR ''%'']\<rparr>, \<lparr>type = T_ESCAPE, val = ''ESCAPE''\<rparr>, \<lparr>type = T_STRING, val = [CHR 0x00]\<rparr>], tokp = 6\<rparr>, error = []\<rparr>"
proof -
  assume "6 \<le> n" and re: "regex_valid ext [CHR ''^'', CHR 0x00, CHR ''.'', CHR ''*'', CHR ''$'']"
  then obtain m where n: "n = Suc (Suc (Suc (Suc (Suc (Suc (m))))))"
    using fuel_6 by blast
  show ?thesis
    unfolding n using re by (simp add: parser_defs toRegex_def)
qed

text \<open>
  The claim C6 as stated fails for the escape character \<open>0\<close>, which the code uses for
  "no escape": the parser accepts it, \<open>toRegex\<close> copies it into the output, and the
  \<open>%\<close> after it stays the wildcard \<open>.*\<close>.
\<close>

theorem toRegex_translation_counterexample:
  "toRegex [CHR 0x00, CHR ''%''] [CHR 0x00]
     = Inr [CHR ''^'', CHR 0x00, CHR ''.'', CHR ''*'', CHR ''$'']
   \<and> make_selector sample_externals 6 [\<lparr>type = T_IDENTIFIER, val = ''A''\<rparr>, \<lparr>type = T_LIKE, val = ''LIKE''\<rparr>, \<lparr>type = T_STRING, val = [CHR 0x00, CHR ''%'']\<rparr>, \<lparr>type = T_ESCAPE, val = ''ESCAPE''\<rparr>, \<lparr>type = T_STRING, val = [CHR 0x00]\<rparr>]
       = Return (ConcreteExpression (Some (LikeExpression (Identifier ''A'')
                   [CHR ''^'', CHR 0x00, CHR ''.'', CHR ''*'', CHR ''$''])))
           \<lparr>tokeniser = \<lparr>tokens = [\<lparr>type = T_IDENTIFIER, val = ''A''\<rparr>, \<lparr>type = T_LIKE, val = ''LIKE''\<rparr>, \<lparr>type = T_STRING, val = [CHR 0x00, CHR ''%'']\<rparr>, \<lparr>type = T_ESCAPE, val = ''ESCAPE''\<rparr>, \<lparr>type = T_STRING, val = [CHR 0x00]\<rparr>], tokp = 6\<rparr>, error = []\<rparr>"
proof (intro conjI)
  show "toRegex [CHR 0x00, CHR ''%''] [CHR 0x00]
     = Inr [CHR ''^'', CHR 0x00, CHR ''.'', CHR ''*'', CHR ''$'']"
    by (simp add: toRegex_def)
  have re: "regex_valid sample_externals [CHR ''^'', CHR 0x00, CHR ''.'', CHR ''*'', CHR ''$'']"
    by (simp add: sample_externals_def syntax_character_def)
  show "make_selector sample_externals 6 [\<lparr>type = T_IDENTIFIER, val = ''A''\<rparr>, \<lparr>type = T_LIKE, val = ''LIKE''\<rparr>, \<lparr>type = T_STRING, val = [CHR 0x00, CHR ''%'']\<rparr>, \<lparr>type = T_ESCAPE, val = ''ESCAPE''\<rparr>, \<lparr>type = T_STRING, val = [CHR 0x00]\<rparr>]
       = Return (ConcreteExpression (Some (LikeExpression (Identifier ''A'')
                   [CHR ''^'', CHR 0x00, CHR ''.'', CHR ''*'', CHR ''$''])))
           \<lparr>tokeniser = \<lparr>tokens = [\<lparr>type = T_IDENTIFIER, val = ''A''\<rparr>, \<lparr>type = T_LIKE, val = ''LIKE''\<rparr>, \<lparr>type = T_STRING, val = [CHR 0x00, CHR ''%'']\<rparr>, \<lparr>type = T_ESCAPE, val = ''ESCAPE''\<rparr>, \<lparr>type = T_STRING, val = [CHR 0x00]\<rparr>], tokp = 6\<rparr>, error = []\<rparr>"
    by (rule nul_escape_compiles [OF _ re]) simp
qed

section \<open>The fused unary minus\<close>

lemma fuel_14: "14 \<le> n \<Longrightarrow> \<exists>m. n = Suc (Suc (Suc (Suc (Suc (Suc (Suc (Suc (Suc (Suc (Suc (Suc (Suc (Suc (m))))))))))))))"
  by (rule exI [of _ "n - 14"]) simp

lemma hex_min_outside_fused_minus:
  "14 \<le> n \<Longrightarrow>
     make_selector ext n [\<lparr>type = T_MINUS, val = ''-''\<rparr>, \<lparr>type = T_LPAREN, val = ''(''\<rparr>, \<lparr>type = T_NUMERIC_EXACT, val = ''0x8000000000000000''\<rparr>, \<lparr>type = T_RPAREN, val = '')''\<rparr>]
       = Return (ConcreteExpression
                   (Some (UnaryArithExpression Negate (Literal (V_EXACT INT64_MIN)))))
           \<lparr>tokeniser = \<lparr>tokens = [\<lparr>type = T_MINUS, val = ''-''\<rparr>, \<lparr>type = T_LPAREN, val = ''(''\<rparr>, \<lparr>type = T_NUMERIC_EXACT, val = ''0x8000000000000000''\<rparr>, \<lparr>type = T_RPAREN, val = '')''\<rparr>], tokp = 5\<rparr>, error = []\<rparr>"
proof -
  assume "14 \<le> n"
  then obtain m where n: "n = Suc (Suc (Suc (Suc (Suc (Suc (Suc (Suc (Suc (Suc (Suc (Suc (Suc (Suc (m))))))))))))))"
    using fuel_14 by blast
  have lit: "parseExactNumeric \<lparr>type = T_NUMERIC_EXACT, val = ''0x8000000000000000''\<rparr> False []
      = (Some (Literal (V_EXACT INT64_MIN)), [])"
    by (simp add: parseExactNumeric_def string_at_def strtoull_def digit_value_def isspace_def
        INT64_MAX_def INT64_MIN_def)
  show ?thesis
    unfolding n by (simp add: parser_defs lit)
qed

text \<open>
  The claim C4 as stated fails for literals with a radix prefix: the hexadecimal literal
  \<open>0x8000000000000000\<close> has the unsigned value \<open>INT64_MAX + 1\<close> and is accepted, as
  \<open>INT64_MIN\<close>, as a plain literal and under a minus applied to a parenthesised
  expression.
\<close>

theorem fused_minus_only_counterexample:
  "unat (INT64_MAX + 1) = 2 ^ 63
   \<and> unat (0x8000000000000000 :: 64 word) = 2 ^ 63
   \<and> parseExactNumeric \<lparr>type = T_NUMERIC_EXACT, val = ''0x8000000000000000''\<rparr> False []
       = (Some (Literal (V_EXACT INT64_MIN :: unit Value)), [])
   \<and> make_selector sample_externals 14 [\<lparr>type = T_MINUS, val = ''-''\<rparr>, \<lparr>type = T_LPAREN, val = ''(''\<rparr>, \<lparr>type = T_NUMERIC_EXACT, val = ''0x8000000000000000''\<rparr>, \<lparr>type = T_RPAREN, val = '')''\<rparr>]
       = Return (ConcreteExpression
                   (Some (UnaryArithExpression Negate (Literal (V_EXACT INT64_MIN)))))
           \<lparr>tokeniser = \<lparr>tokens = [\<lparr>type = T_MINUS, val = ''-''\<rparr>, \<lparr>type = T_LPAREN, val = ''(''\<rparr>, \<lparr>type = T_NUMERIC_EXACT, val = ''0x8000000000000000''\<rparr>, \<lparr>type = T_RPAREN, val = '')''\<rparr>], tokp = 5\<rparr>, error = []\<rparr>"
proof (intro conjI)
  show "unat (INT64_MAX + 1) = 2 ^ 63" by (simp add: INT64_MAX_def)
  show "unat (0x8000000000000000 :: 64 word) = 2 ^ 63" by simp
  show "parseExactNumeric \<lparr>type = T_NUMERIC_EXACT, val = ''0x8000000000000000''\<rparr> False []
       = (Some (Literal (V_EXACT INT64_MIN :: unit Value)), [])"
    by (simp add: parseExactNumeric_def string_at_def strtoull_def digit_value_def isspace_def
        INT64_MAX_def INT64_MIN_def)
  show "make_selector sample_externals 14 [\<lparr>type = T_MINUS, val = ''-''\<rparr>, \<lparr>type = T_LPAREN, val = ''(''\<rparr>, \<lparr>type = T_NUMERIC_EXACT, val = ''0x8000000000000000''\<rparr>, \<lparr>type = T_RPAREN, val = '')''\<rparr>]
       = Return (ConcreteExpression
                   (Some (UnaryArithExpression Negate (Literal (V_EXACT INT64_MIN)))))
           \<lparr>tokeniser = \<lparr>tokens = [\<lparr>type = T_MINUS, val = ''-''\<rparr>, \<lparr>type = T_LPAREN, val = ''(''\<rparr>, \<lparr>type = T_NUMERIC_EXACT, val = ''0x8000000000000000''\<rparr>, \<lparr>type = T_RPAREN, val = '')''\<rparr>], tokp = 5\<rparr>, error = []\<rparr>"
    by (rule hex_min_outside_fused_minus) simp
qed

text \<open>
  C4, as amended. A unary minus directly before an exact numeric token is fused at
  compile time. For a decimal literal (no radix prefix, no leading \<open>0\<close>) of the value
  \<open>INT64_MAX + 1\<close>: in that position it is accepted and compiles to the literal
  \<open>INT64_MIN\<close>, the minimal signed 64-bit value, so that \<open>-9223372036854775808\<close>
  compiles; as a plain literal, under a minus applied to a parenthesised expression, and
  under a minus followed by a unary plus it is rejected with "integer literal too big".
  A literal of that value with a radix (the prefix \<open>0x\<close> or \<open>0b\<close> with a first digit
  other than \<open>0\<close>, or a leading \<open>0\<close>) is accepted as a plain literal, wherever in the
  token stream a primary expression stands, and compiles to \<open>INT64_MIN\<close>.
\<close>

theorem fused_minus_literal:
  fixes tok :: Token
  shows "type tok = T_NUMERIC_EXACT \<Longrightarrow>
    s = filter (\<lambda>c. c \<noteq> CHR ''_'') (val tok) \<Longrightarrow>
    s \<noteq> [] \<Longrightarrow> \<forall>c\<in>set s. is_digit_of 10 c \<Longrightarrow> hd s \<noteq> CHR ''0'' \<Longrightarrow>
    digits_value 10 s = 2 ^ 63 \<Longrightarrow>
    sint INT64_MIN = - (2 ^ 63)
    \<and> make_selector ext (Suc (Suc (Suc (Suc (Suc (Suc (n))))))) [\<lparr>type = T_MINUS, val = ''-''\<rparr>, tok]
        = Return (ConcreteExpression (Some (Literal (V_EXACT INT64_MIN))))
            \<lparr>tokeniser = \<lparr>tokens = [\<lparr>type = T_MINUS, val = ''-''\<rparr>, tok], tokp = 3\<rparr>, error = []\<rparr>
    \<and> unaryArithExpression ext (Suc n)
          \<lparr>tokeniser = \<lparr>tokens = pre @ \<lparr>type = T_MINUS, val = ''-''\<rparr> # tok # rest, tokp = length pre\<rparr>, error = err\<rparr>
        = Return (Some (Literal (V_EXACT INT64_MIN)))
            \<lparr>tokeniser = \<lparr>tokens = pre @ \<lparr>type = T_MINUS, val = ''-''\<rparr> # tok # rest, tokp = Suc (Suc (length pre))\<rparr>,
             error = err\<rparr>
    \<and> primaryExpression ext
          \<lparr>tokeniser = \<lparr>tokens = pre @ tok # rest, tokp = length pre\<rparr>, error = err\<rparr>
        = Return None
            \<lparr>tokeniser = \<lparr>tokens = pre @ tok # rest, tokp = Suc (length pre)\<rparr>,
             error = ''integer literal too big''\<rparr>
    \<and> unaryArithExpression ext (Suc (Suc (Suc (Suc (Suc (Suc (Suc (Suc (n)))))))))
          \<lparr>tokeniser = \<lparr>tokens = \<lparr>type = T_MINUS, val = ''-''\<rparr> # \<lparr>type = T_LPAREN, val = ''(''\<rparr> # tok # \<lparr>type = T_RPAREN, val = '')''\<rparr> # rest, tokp = 0\<rparr>, error = err\<rparr>
        = Return None
            \<lparr>tokeniser = \<lparr>tokens = \<lparr>type = T_MINUS, val = ''-''\<rparr> # \<lparr>type = T_LPAREN, val = ''(''\<rparr> # tok # \<lparr>type = T_RPAREN, val = '')''\<rparr> # rest, tokp = 3\<rparr>,
             error = ''integer literal too big''\<rparr>
    \<and> unaryArithExpression ext (Suc (Suc n))
          \<lparr>tokeniser = \<lparr>tokens = \<lparr>type = T_MINUS, val = ''-''\<rparr> # \<lparr>type = T_PLUS, val = ''+''\<rparr> # tok # rest, tokp = 0\<rparr>, error = err\<rparr>
        = Return None
            \<lparr>tokeniser = \<lparr>tokens = \<lparr>type = T_MINUS, val = ''-''\<rparr> # \<lparr>type = T_PLUS, val = ''+''\<rparr> # tok # rest, tokp = 3\<rparr>,
             error = ''integer literal too big''\<rparr>
    \<and> (\<forall>tok2 x ds b.
          type tok2 = T_NUMERIC_EXACT
          \<and> filter (\<lambda>c. c \<noteq> CHR ''_'') (val tok2) = CHR ''0'' # x # ds
          \<and> ((x = CHR ''b'' \<or> x = CHR ''B'') \<and> b = 2 \<or> (x = CHR ''x'' \<or> x = CHR ''X'') \<and> b = 16)
          \<and> ds \<noteq> [] \<and> (\<forall>c\<in>set ds. is_digit_of b c) \<and> hd ds \<noteq> CHR ''0''
          \<and> digits_value b ds = 2 ^ 63 \<longrightarrow>
        primaryExpression ext
            \<lparr>tokeniser = \<lparr>tokens = pre @ tok2 # rest, tokp = length pre\<rparr>, error = err\<rparr>
          = Return (Some (Literal (V_EXACT INT64_MIN)))
              \<lparr>tokeniser = \<lparr>tokens = pre @ tok2 # rest, tokp = Suc (length pre)\<rparr>,
               error = err\<rparr>)
    \<and> (\<forall>tok2 ds.
          type tok2 = T_NUMERIC_EXACT
          \<and> filter (\<lambda>c. c \<noteq> CHR ''_'') (val tok2) = CHR ''0'' # ds
          \<and> (\<forall>c\<in>set ds. is_digit_of 8 c) \<and> digits_value 8 ds = 2 ^ 63 \<longrightarrow>
        primaryExpression ext
            \<lparr>tokeniser = \<lparr>tokens = pre @ tok2 # rest, tokp = length pre\<rparr>, error = err\<rparr>
          = Return (Some (Literal (V_EXACT INT64_MIN)))
              \<lparr>tokeniser = \<lparr>tokens = pre @ tok2 # rest, tokp = Suc (length pre)\<rparr>,
               error = err\<rparr>)"
proof -
  assume ty: "type tok = T_NUMERIC_EXACT"
    and s: "s = filter (\<lambda>c. c \<noteq> CHR ''_'') (val tok)"
    and ds: "s \<noteq> []" "\<forall>c\<in>set s. is_digit_of 10 c" "hd s \<noteq> CHR ''0''"
    and v: "digits_value 10 s = 2 ^ 63"
  have fused: "parseExactNumeric tok True e = (Some (Literal (V_EXACT INT64_MIN)), e)" for e
    unfolding parse_decimal [OF s ds] using v by simp
  have plain: "parseExactNumeric tok False e = (None, ''integer literal too big'')" for e
    unfolding parse_decimal [OF s ds] using v by simp
  have radix: "parseExactNumeric tok2 False e = (Some (Literal (V_EXACT INT64_MIN)), e)"
    if "filter (\<lambda>c. c \<noteq> CHR ''_'') (val tok2) = CHR ''0'' # x # ds"
      "(x = CHR ''b'' \<or> x = CHR ''B'') \<and> b = 2 \<or> (x = CHR ''x'' \<or> x = CHR ''X'') \<and> b = 16"
      "ds \<noteq> []" "\<forall>c\<in>set ds. is_digit_of b c" "hd ds \<noteq> CHR ''0''"
      "digits_value b ds = 2 ^ 63"
    for tok2 :: Token and x ds b e
    unfolding parse_prefixed [OF that(1-5)] using that(6) by (simp add: INT64_MIN_def)
  have octal: "parseExactNumeric tok2 False e = (Some (Literal (V_EXACT INT64_MIN)), e)"
    if "filter (\<lambda>c. c \<noteq> CHR ''_'') (val tok2) = CHR ''0'' # ds"
      "\<forall>c\<in>set ds. is_digit_of 8 c" "digits_value 8 ds = 2 ^ 63"
    for tok2 :: Token and ds e
    unfolding parse_octal [OF that(1-2)] using that(3) by (simp add: INT64_MIN_def)
  show ?thesis
  proof (intro conjI allI impI, goal_cases)
    case 1 show ?case by (simp add: INT64_MIN_def)
  next
    case 2 show ?case using ty by (simp add: fused plain parser_defs nth_append)
  next
    case 3 show ?case using ty by (simp add: fused plain parser_defs nth_append)
  next
    case 4 show ?case using ty by (simp add: fused plain parser_defs nth_append)
  next
    case 5 show ?case using ty by (simp add: fused plain parser_defs nth_append)
  next
    case 6 show ?case using ty by (simp add: fused plain parser_defs nth_append)
  next
    case (7 tok2 x ds b)
    then have p: "parseExactNumeric tok2 False err = (Some (Literal (V_EXACT INT64_MIN)), err)"
      by (intro radix [of tok2 x ds b]) simp_all
    from 7 have t: "type tok2 = T_NUMERIC_EXACT" by simp
    show ?case using t by (simp add: p parser_defs nth_append)
  next
    case (8 tok2 ds)
    then have p: "parseExactNumeric tok2 False err = (Some (Literal (V_EXACT INT64_MIN)), err)"
      by (intro octal [of tok2 ds]) simp_all
    from 8 have t: "type tok2 = T_NUMERIC_EXACT" by simp
    show ?case using t by (simp add: p parser_defs nth_append)
  qed
qed

theorem fused_minus_literal_witness:
  "unaryArithExpression sample_externals (Suc 0)
          \<lparr>tokeniser = \<lparr>tokens = [] @ \<lparr>type = T_MINUS, val = ''-''\<rparr> # \<lparr>type = T_NUMERIC_EXACT, val = ''9223372036854775808''\<rparr> # [], tokp = length ([] :: Token list)\<rparr>,
           error = []\<rparr>
        = Return (Some (Literal (V_EXACT INT64_MIN)))
            \<lparr>tokeniser = \<lparr>tokens = [] @ \<lparr>type = T_MINUS, val = ''-''\<rparr> # \<lparr>type = T_NUMERIC_EXACT, val = ''9223372036854775808''\<rparr> # [],
                           tokp = Suc (Suc (length ([] :: Token list)))\<rparr>,
             error = []\<rparr>
   \<and> primaryExpression sample_externals
          \<lparr>tokeniser = \<lparr>tokens = [] @ \<lparr>type = T_NUMERIC_EXACT, val = ''9223372036854775808''\<rparr> # [], tokp = length ([] :: Token list)\<rparr>, error = []\<rparr>
        = Return None
            \<lparr>tokeniser = \<lparr>tokens = [] @ \<lparr>type = T_NUMERIC_EXACT, val = ''9223372036854775808''\<rparr> # [], tokp = Suc (length ([] :: Token list))\<rparr>,
             error = ''integer literal too big''\<rparr>
   \<and> primaryExpression sample_externals
          \<lparr>tokeniser = \<lparr>tokens = [] @ \<lparr>type = T_NUMERIC_EXACT, val = ''0x8000000000000000''\<rparr> # [], tokp = length ([] :: Token list)\<rparr>, error = []\<rparr>
        = Return (Some (Literal (V_EXACT INT64_MIN)))
            \<lparr>tokeniser = \<lparr>tokens = [] @ \<lparr>type = T_NUMERIC_EXACT, val = ''0x8000000000000000''\<rparr> # [], tokp = Suc (length ([] :: Token list))\<rparr>,
             error = []\<rparr>"
proof -
  have a: "type \<lparr>type = T_NUMERIC_EXACT, val = ''9223372036854775808''\<rparr> = T_NUMERIC_EXACT" by simp
  have b: "''9223372036854775808'' = filter (\<lambda>c. c \<noteq> CHR ''_'') (val \<lparr>type = T_NUMERIC_EXACT, val = ''9223372036854775808''\<rparr>)" by simp
  have c: "''9223372036854775808'' \<noteq> []" by simp
  have d: "\<forall>c\<in>set ''9223372036854775808''. is_digit_of 10 c"
    by (simp add: is_digit_of_def digit_value_def)
  have e: "hd ''9223372036854775808'' \<noteq> CHR ''0''" by simp
  have f: "digits_value 10 ''9223372036854775808'' = 2 ^ 63"
    by (simp add: digits_value_def digit_num_def digit_value_def)
  have g: "type \<lparr>type = T_NUMERIC_EXACT, val = ''0x8000000000000000''\<rparr> = T_NUMERIC_EXACT
      \<and> filter (\<lambda>c. c \<noteq> CHR ''_'') (val \<lparr>type = T_NUMERIC_EXACT, val = ''0x8000000000000000''\<rparr>) = CHR ''0'' # CHR ''x'' # ''8000000000000000''
      \<and> ((CHR ''x'' = CHR ''b'' \<or> CHR ''x'' = CHR ''B'') \<and> (16::nat) = 2
          \<or> (CHR ''x'' = CHR ''x'' \<or> CHR ''x'' = CHR ''X'') \<and> (16::nat) = 16)
      \<and> ''8000000000000000'' \<noteq> [] \<and> (\<forall>c\<in>set ''8000000000000000''. is_digit_of 16 c)
      \<and> hd ''8000000000000000'' \<noteq> CHR ''0''
      \<and> digits_value 16 ''8000000000000000'' = 2 ^ 63"
    by (simp add: is_digit_of_def digit_value_def digits_value_def digit_num_def)
  from fused_minus_literal [OF a b c d e f, of sample_externals 0 "[]" "[]" "[]"] g
  show ?thesis by blast
qed

end
